theory Spec2Isabelle
  imports Complex_Main
begin

chapter \<open>The workflow execution engine of the retrieval-augmented chat backend\<close>

text \<open>
  A shallow embedding of \<^verbatim>\<open>backend/services/embeddings.py\<close> (text chunking),
  \<^verbatim>\<open>backend/services/web_search.py\<close>, \<^verbatim>\<open>backend/services/llm_service.py\<close>
  and the \<^verbatim>\<open>/run\<close> route of \<^verbatim>\<open>backend/routes/workflow.py\<close>.
  Exceptions are values of a sum type (\<open>Inl\<close> is the raised exception), the calls
  into external services (OpenAI, Gemini, ChromaDB, the two search APIs, the database)
  are parameters collected in a record, and every \<^verbatim>\<open>try\<close>/\<^verbatim>\<open>except\<close>
  of the source is a case distinction of the model.
\<close>

section \<open>Definitions\<close>

subsection \<open>Text chunking (\<^verbatim>\<open>split_text_into_chunks\<close>)\<close>

text \<open>
  Python's slice \<^verbatim>\<open>xs[start:stop]\<close> for integer bounds: a negative bound counts
  from the end, and both bounds are clamped to the length of the sequence.
\<close>

definition py_clamp_index :: "nat \<Rightarrow> int \<Rightarrow> nat" where
  "py_clamp_index n i = (if i < 0 then nat (max 0 (i + int n)) else min n (nat i))"

definition py_slice :: "'a list \<Rightarrow> int \<Rightarrow> int \<Rightarrow> 'a list" where
  "py_slice xs start stop =
     (let s = py_clamp_index (length xs) start;
          e = py_clamp_index (length xs) stop
      in take (e - s) (drop s xs))"

text \<open>
  The \<^verbatim>\<open>while start < len(text)\<close> loop. A text is a sequence of characters of any
  type \<open>'a\<close>; \<open>chunk_size\<close> and \<open>overlap\<close> are Python integers. The loop
  does not terminate when \<open>overlap \<ge> chunk_size\<close> (the start does not advance), so it
  is a partial function: \<open>None\<close> is the run that never returns.
\<close>

partial_function (option) chunk_loop ::
  "'a list \<Rightarrow> int \<Rightarrow> int \<Rightarrow> 'a list list \<Rightarrow> int \<Rightarrow> 'a list list option" where
  "chunk_loop text chunk_size overlap chunks start =
     (if start < int (length text) then
        (let stop = start + chunk_size;
             chunk = py_slice text start stop;
             chunks' = chunks @ [chunk];
             start' = stop - overlap
         in if start' \<ge> int (length text) then Some chunks'
            else chunk_loop text chunk_size overlap chunks' start')
      else Some chunks)"

declare chunk_loop.simps [code]

definition split_text_into_chunks :: "'a list \<Rightarrow> int \<Rightarrow> int \<Rightarrow> 'a list list option" where
  "split_text_into_chunks text chunk_size overlap =
     (if int (length text) \<le> chunk_size then Some [text]
      else chunk_loop text chunk_size overlap [] 0)"

text \<open>
  The specification's reading of the result, to compare the loop with: the windows of
  \<open>c\<close> characters that start at the multiples of the step \<open>c - v\<close> below the length
  of the text. \<open>window_count n step\<close> is the number of those multiples.
\<close>

definition window_count :: "nat \<Rightarrow> nat \<Rightarrow> nat" where
  "window_count n step = (n + step - 1) div step"

definition spec_windows :: "'a list \<Rightarrow> nat \<Rightarrow> nat \<Rightarrow> 'a list list" where
  "spec_windows text c v =
     map (\<lambda>k. take c (drop (k * (c - v)) text)) [0 ..< window_count (length text) (c - v)]"

text \<open>
  The number of positions of the text that chunk \<open>i\<close> and chunk \<open>i + 1\<close> both cover,
  chunk \<open>k\<close> lying at offset \<open>k * (c - v)\<close>.
\<close>

definition shared_chars :: "nat \<Rightarrow> nat \<Rightarrow> 'a list list \<Rightarrow> nat \<Rightarrow> nat" where
  "shared_chars c v chunks i =
     card ({i * (c - v) ..< i * (c - v) + length (chunks ! i)} \<inter>
           {Suc i * (c - v) ..< Suc i * (c - v) + length (chunks ! Suc i)})"

subsection \<open>Python values and exceptions\<close>

text \<open>
  The workflow definition of a request is a \<^verbatim>\<open>Dict[str, Any]\<close> decoded from JSON, and
  the result of a vector query is a dictionary of the index client: both are values of
  \<open>pyval\<close>. A dictionary is an association list (the keys of a decoded JSON object are
  strings, looked up with \<open>map_of\<close>); a number is a rational, of which the code only
  observes whether it is zero.
\<close>

datatype pyval =
    PNone
  | PBool bool
  | PNum rat
  | PStr string
  | PList "pyval list"
  | PDict "(string \<times> pyval) list"

text \<open>
  An exception. \<open>Exception m\<close> is \<^verbatim>\<open>Exception(m)\<close> raised by the code of the
  repository, \<open>ExternalError m\<close> an exception \<open>e\<close> with \<open>str(e) = m\<close> raised inside
  an external client, \<open>ValidationError f\<close> the error of the response model when its
  field \<open>f\<close> is given a value of the wrong type, and the others are the built-in
  exceptions of the operations on Python values, with the operand (and the attribute or
  operation) that raised them.
\<close>

datatype exn =
    Exception string
  | ExternalError string
  | KeyError pyval
  | IndexError pyval
  | AttributeError pyval string
  | TypeError string pyval
  | ValidationError string

text \<open>Truthiness, as \<^verbatim>\<open>if v:\<close> tests it.\<close>

fun truthy :: "pyval \<Rightarrow> bool" where
  "truthy PNone = False"
| "truthy (PBool b) = b"
| "truthy (PNum r) = (r \<noteq> 0)"
| "truthy (PStr s) = (s \<noteq> [])"
| "truthy (PList xs) = (xs \<noteq> [])"
| "truthy (PDict d) = (d \<noteq> [])"

text \<open>
  \<^verbatim>\<open>str(v)\<close>, as an f-string formats \<open>v\<close>. The text of a number or of a container
  is the interpreter's, given by the parameter \<open>repr\<close>.
\<close>

fun py_str :: "(pyval \<Rightarrow> string) \<Rightarrow> pyval \<Rightarrow> string" where
  "py_str repr (PStr s) = s"
| "py_str repr PNone = ''None''"
| "py_str repr (PBool b) = (if b then ''True'' else ''False'')"
| "py_str repr v = repr v"

text \<open>\<^verbatim>\<open>obj.get(key, default)\<close>: only a dictionary has the method.\<close>

fun py_get :: "pyval \<Rightarrow> pyval \<Rightarrow> pyval \<Rightarrow> exn + pyval" where
  "py_get (PDict d) (PStr k) dflt = Inr (case map_of d k of Some v \<Rightarrow> v | None \<Rightarrow> dflt)"
| "py_get (PDict d) (PList xs) dflt = Inl (TypeError ''unhashable'' (PList xs))"
| "py_get (PDict d) (PDict e) dflt = Inl (TypeError ''unhashable'' (PDict e))"
| "py_get (PDict d) key dflt = Inr dflt"
| "py_get obj key dflt = Inl (AttributeError obj ''get'')"

text \<open>\<^verbatim>\<open>obj[k]\<close> for a string \<open>k\<close>, and \<^verbatim>\<open>obj[0]\<close>.\<close>

fun py_getitem_str :: "pyval \<Rightarrow> string \<Rightarrow> exn + pyval" where
  "py_getitem_str (PDict d) k =
     (case map_of d k of Some v \<Rightarrow> Inr v | None \<Rightarrow> Inl (KeyError (PStr k)))"
| "py_getitem_str obj k = Inl (TypeError ''subscript'' obj)"

fun py_getitem_0 :: "pyval \<Rightarrow> exn + pyval" where
  "py_getitem_0 (PList xs) = (case xs of [] \<Rightarrow> Inl (IndexError (PList xs)) | x # _ \<Rightarrow> Inr x)"
| "py_getitem_0 (PStr s) = (case s of [] \<Rightarrow> Inl (IndexError (PStr s)) | c # _ \<Rightarrow> Inr (PStr [c]))"
| "py_getitem_0 (PDict d) = Inl (KeyError (PNum 0))"
| "py_getitem_0 obj = Inl (TypeError ''subscript'' obj)"

text \<open>
  \<^verbatim>\<open>k in obj\<close> for a string \<open>k\<close>: a key of a dictionary, an element of a list, a
  substring of a string.
\<close>

fun is_substring :: "'a list \<Rightarrow> 'a list \<Rightarrow> bool" where
  "is_substring xs [] = (xs = [])"
| "is_substring xs (y # ys) = (take (length xs) (y # ys) = xs \<or> is_substring xs ys)"

fun py_contains_str :: "string \<Rightarrow> pyval \<Rightarrow> exn + bool" where
  "py_contains_str k (PDict d) = Inr (map_of d k \<noteq> None)"
| "py_contains_str k (PList xs) = Inr (PStr k \<in> set xs)"
| "py_contains_str k (PStr s) = Inr (is_substring k s)"
| "py_contains_str k obj = Inl (TypeError ''in'' obj)"

text \<open>
  Iteration (\<^verbatim>\<open>for x in obj\<close>): the elements of a list, the keys of a dictionary,
  the characters of a string.
\<close>

fun py_iter :: "pyval \<Rightarrow> exn + pyval list" where
  "py_iter (PList xs) = Inr xs"
| "py_iter (PDict d) = Inr (map (\<lambda>kv. PStr (fst kv)) d)"
| "py_iter (PStr s) = Inr (map (\<lambda>c. PStr [c]) s)"
| "py_iter obj = Inl (TypeError ''iter'' obj)"

text \<open>\<^verbatim>\<open>obj[:n]\<close>: a list and a string can be sliced.\<close>

fun py_slice_upto :: "pyval \<Rightarrow> int \<Rightarrow> exn + pyval" where
  "py_slice_upto (PList xs) n = Inr (PList (py_slice xs 0 n))"
| "py_slice_upto (PStr s) n = Inr (PStr (py_slice s 0 n))"
| "py_slice_upto obj n = Inl (TypeError ''subscript'' obj)"

text \<open>\<^verbatim>\<open>sep.join(xs)\<close>, and the decimal text of a natural number.\<close>

fun join :: "string \<Rightarrow> string list \<Rightarrow> string" where
  "join sep [] = []"
| "join sep [x] = x"
| "join sep (x # y # ys) = x @ sep @ join sep (y # ys)"

fun str_nat :: "nat \<Rightarrow> string" where
  "str_nat n = (if n < 10 then [''0123456789'' ! n] else str_nat (n div 10) @ [''0123456789'' ! (n mod 10)])"

declare str_nat.simps [simp del]

definition blank_line :: string where
  "blank_line = [CHR 0x0A, CHR 0x0A]"

subsection \<open>External services\<close>

text \<open>
  A row handed to \<^verbatim>\<open>log_execution\<close>: its arguments. The response is whatever the
  generation result holds, a text or Python's \<^verbatim>\<open>None\<close> (the value \<open>None\<close> here). The
  \<^verbatim>\<open>timestamp\<close> column is filled in by the insert itself. \<open>'c\<close> is the type of a
  measured time.
\<close>

record 'c ExecutionLog =
  log_workflow_id :: "int option"
  log_query :: string
  log_response :: "string option"
  log_model_used :: string
  log_success :: bool
  log_error :: "string option"
  log_execution_time :: 'c

text \<open>
  The world outside the repository. Each client call returns \<open>Inr\<close> its value or
  \<open>Inl\<close> the text \<open>str(e)\<close> of the exception it raised. \<open>'t\<close> is the type of a
  temperature.
  \<^item> \<open>openai_chat model prompt temperature\<close>: the content of the first choice of
    \<^verbatim>\<open>openai_client.chat.completions.create\<close>, an optional text in the client
    library (\<open>None\<close> is a message without content);
  \<^item> \<open>gemini_generate model_name prompt temperature\<close>: \<^verbatim>\<open>response.text\<close> of
    \<^verbatim>\<open>GenerativeModel(model_name).generate_content\<close>;
  \<^item> \<open>chroma_query query n_results\<close>: the embedding of the query and
    \<^verbatim>\<open>collection.query\<close>;
  \<^item> \<open>serpapi_request\<close>, \<open>brave_request\<close>: the HTTP request, \<^verbatim>\<open>raise_for_status\<close>
    and the decoding of the body;
  \<^item> \<open>db_insert row rows\<close>: connect, insert, commit and close on the table
    \<^verbatim>\<open>execution_logs\<close> holding \<open>rows\<close>: the exception raised, if any, and the table
    afterwards;
  \<^item> \<open>elapsed_time k\<close>: the wall-clock time \<^verbatim>\<open>time.time() - start_time\<close> measured
    before a call of \<^verbatim>\<open>log_execution\<close>, \<open>k\<close> entries having been logged before;
  \<^item> \<open>py_repr\<close>, \<open>builtin_message\<close>: the interpreter's text of a value and of a
    built-in exception.
\<close>

record ('t, 'c) backends =
  openai_chat :: "string \<Rightarrow> string \<Rightarrow> 't \<Rightarrow> string + string option"
  gemini_generate :: "string \<Rightarrow> string \<Rightarrow> 't \<Rightarrow> string + string"
  chroma_query :: "string \<Rightarrow> int option \<Rightarrow> string + pyval"
  SERPAPI_KEY :: "string option"
  BRAVE_API_KEY :: "string option"
  serpapi_request :: "string \<Rightarrow> int \<Rightarrow> string + pyval"
  brave_request :: "string \<Rightarrow> int \<Rightarrow> string + pyval"
  db_insert :: "'c ExecutionLog \<Rightarrow> 'c ExecutionLog list \<Rightarrow> string option \<times> 'c ExecutionLog list"
  elapsed_time :: "nat \<Rightarrow> 'c"
  py_repr :: "pyval \<Rightarrow> string"
  builtin_message :: "exn \<Rightarrow> string"

text \<open>\<^verbatim>\<open>str(e)\<close> of an exception.\<close>

fun exn_str :: "('t, 'c) backends \<Rightarrow> exn \<Rightarrow> string" where
  "exn_str be (Exception m) = m"
| "exn_str be (ExternalError m) = m"
| "exn_str be e = builtin_message be e"

subsection \<open>The LLM service (\<^verbatim>\<open>llm_service.py\<close>)\<close>

record LLMService =
  openai_available :: bool
  gemini_available :: bool

text \<open>A call made to a provider: the model and the prompt.\<close>

datatype llm_call = OpenAICall string string | GeminiCall string string

definition build_prompt :: "string \<Rightarrow> string \<Rightarrow> string" where
  "build_prompt qry context =
     (if context \<noteq> [] then ''Context: '' @ context @ blank_line @ ''Question: '' @ qry @ blank_line @ ''Answer:''
      else ''Question: '' @ qry @ blank_line @ ''Answer:'')"

definition generate_response_openai ::
  "('t, 'c) backends \<Rightarrow> string \<Rightarrow> string \<Rightarrow> string \<Rightarrow> 't \<Rightarrow>
     (exn + string option) \<times> llm_call list" where
  "generate_response_openai be qry context model temp =
     (let prompt = build_prompt qry context
      in (case openai_chat be model prompt temp of
            Inr content \<Rightarrow> Inr content
          | Inl e \<Rightarrow> Inl (Exception (''OpenAI API error: '' @ e)),
          [OpenAICall model prompt]))"

definition gemini_models :: "string list" where
  "gemini_models = [''gemini-1.5-pro'', ''gemini-1.5-flash'', ''gemini-pro'']"

text \<open>
  The loop over the Gemini models: the first one that answers ends it, a failure is
  printed and the next model is tried. \<open>None\<close> is the loop running off its end.
\<close>

fun gemini_try_models ::
  "('t, 'c) backends \<Rightarrow> string \<Rightarrow> 't \<Rightarrow> string list \<Rightarrow> string option \<times> llm_call list" where
  "gemini_try_models be prompt temp [] = (None, [])"
| "gemini_try_models be prompt temp (model_name # rest) =
     (case gemini_generate be model_name prompt temp of
        Inr txt \<Rightarrow> (Some txt, [GeminiCall model_name prompt])
      | Inl e \<Rightarrow> (fst (gemini_try_models be prompt temp rest),
                  GeminiCall model_name prompt # snd (gemini_try_models be prompt temp rest)))"

definition generate_response_gemini ::
  "('t, 'c) backends \<Rightarrow> string \<Rightarrow> string \<Rightarrow> 't \<Rightarrow> (exn + string) \<times> llm_call list" where
  "generate_response_gemini be qry context temp =
     (let prompt = build_prompt qry context;
          tried = gemini_try_models be prompt temp gemini_models
      in (case fst tried of
            Some txt \<Rightarrow> Inr txt
          | None \<Rightarrow> Inl (Exception (''Gemini API error: '' @ ''All Gemini models are unavailable'')),
          snd tried))"

text \<open>
  The dictionary \<^verbatim>\<open>response_data\<close>. Its \<^verbatim>\<open>response\<close> is the initial empty text,
  the text of Gemini, or what \<^verbatim>\<open>generate_response_openai\<close> returned: a text or
  \<^verbatim>\<open>None\<close>.
\<close>

record response_data =
  response :: "string option"
  model_used :: string
  success :: bool
  error :: string

definition initial_response_data :: response_data where
  "initial_response_data = \<lparr>response = Some '''', model_used = '''', success = False, error = ''''\<rparr>"

text \<open>
  The body of the \<^verbatim>\<open>try\<close> of \<^verbatim>\<open>generate_response\<close>: \<open>Inr\<close> the dictionary as
  the branch taken has filled it, \<open>Inl\<close> the exception that left the block. A
  provider call is the first statement of its branch, so an exception leaves the
  dictionary as it was initialised. The bare \<^verbatim>\<open>except:\<close> of the \<open>auto\<close> branch
  drops the exception of OpenAI.
\<close>

definition generate_response_try ::
  "LLMService \<Rightarrow> ('t, 'c) backends \<Rightarrow> string \<Rightarrow> string \<Rightarrow> pyval \<Rightarrow> 't \<Rightarrow>
     (exn + response_data) \<times> llm_call list" where
  "generate_response_try svc be qry context pm temp =
     (let response_data = initial_response_data;
          via_openai = generate_response_openai be qry context ''gpt-4o-mini'' temp;
          via_gemini = generate_response_gemini be qry context temp;
          filled = (\<lambda>txt name. response_data\<lparr>response := txt, model_used := name, success := True\<rparr>)
      in if pm = PStr ''openai'' \<and> openai_available svc then
           (case fst via_openai of
              Inr content \<Rightarrow> (Inr (filled content ''openai''), snd via_openai)
            | Inl e \<Rightarrow> (Inl e, snd via_openai))
         else if pm = PStr ''gemini'' \<and> gemini_available svc then
           (case fst via_gemini of
              Inr txt \<Rightarrow> (Inr (filled (Some txt) ''gemini''), snd via_gemini)
            | Inl e \<Rightarrow> (Inl e, snd via_gemini))
         else if pm = PStr ''auto'' then
           (if openai_available svc then
              (case fst via_openai of
                 Inr content \<Rightarrow> (Inr (filled content ''openai''), snd via_openai)
               | Inl _ \<Rightarrow>
                   (if gemini_available svc then
                      (case fst via_gemini of
                         Inr txt \<Rightarrow> (Inr (filled (Some txt) ''gemini''), snd via_openai @ snd via_gemini)
                       | Inl e \<Rightarrow> (Inl e, snd via_openai @ snd via_gemini))
                    else (Inl (Exception ''No LLM services available''), snd via_openai)))
            else if gemini_available svc then
              (case fst via_gemini of
                 Inr txt \<Rightarrow> (Inr (filled (Some txt) ''gemini''), snd via_gemini)
               | Inl e \<Rightarrow> (Inl e, snd via_gemini))
            else (Inl (Exception ''No LLM services available''), []))
         else (Inl (Exception (''Preferred model '' @ [CHR 0x27] @ py_str (py_repr be) pm @ [CHR 0x27]
                                 @ '' not available'')), []))"

definition generate_response ::
  "LLMService \<Rightarrow> ('t, 'c) backends \<Rightarrow> string \<Rightarrow> string \<Rightarrow> pyval \<Rightarrow> 't \<Rightarrow>
     response_data \<times> llm_call list" where
  "generate_response svc be qry context pm temp =
     (case generate_response_try svc be qry context pm temp of
        (Inr response_data, calls) \<Rightarrow> (response_data, calls)
      | (Inl e, calls) \<Rightarrow>
          (initial_response_data\<lparr>error := exn_str be e, success := False\<rparr>, calls))"

text \<open>
  An exception raised by the code of the repository itself, with a message that is
  not empty.
\<close>

definition raised_by_repo :: "exn \<Rightarrow> bool" where
  "raised_by_repo e = (case e of Exception m \<Rightarrow> m \<noteq> [] | _ \<Rightarrow> False)"

subsection \<open>Web search (\<^verbatim>\<open>web_search.py\<close>)\<close>

text \<open>\<^verbatim>\<open>if not KEY\<close>: the environment variable is unset or empty.\<close>

definition key_missing :: "string option \<Rightarrow> bool" where
  "key_missing k = (case k of None \<Rightarrow> True | Some s \<Rightarrow> s = [])"

text \<open>
  The loop over the result items: each item gives the entry
  \<^verbatim>\<open>f"{title}: {snippet} ({link})"\<close>, the three read with \<^verbatim>\<open>item.get\<close> under the
  keys \<open>k1\<close>, \<open>k2\<close> and \<open>k3\<close>.
\<close>

fun format_results ::
  "(pyval \<Rightarrow> string) \<Rightarrow> string \<Rightarrow> string \<Rightarrow> string \<Rightarrow> pyval list \<Rightarrow> exn + string list" where
  "format_results repr k1 k2 k3 [] = Inr []"
| "format_results repr k1 k2 k3 (item # items) =
     (case py_get item (PStr k1) PNone of Inl e \<Rightarrow> Inl e | Inr title \<Rightarrow>
      case py_get item (PStr k2) PNone of Inl e \<Rightarrow> Inl e | Inr snippet \<Rightarrow>
      case py_get item (PStr k3) PNone of Inl e \<Rightarrow> Inl e | Inr link \<Rightarrow>
      case format_results repr k1 k2 k3 items of Inl e \<Rightarrow> Inl e | Inr results \<Rightarrow>
        Inr ((py_str repr title @ '': '' @ py_str repr snippet @ '' ('' @ py_str repr link @ '')'')
             # results))"

definition serpapi_search :: "('t, 'c) backends \<Rightarrow> string \<Rightarrow> int \<Rightarrow> exn + string list" where
  "serpapi_search be qry num_results =
     (if key_missing (SERPAPI_KEY be) then Inl (Exception ''SerpAPI key not set in environment.'')
      else
        case serpapi_request be qry num_results of Inl m \<Rightarrow> Inl (ExternalError m) | Inr data \<Rightarrow>
        case py_get data (PStr ''organic_results'') (PList []) of Inl e \<Rightarrow> Inl e | Inr organic \<Rightarrow>
        case py_slice_upto organic num_results of Inl e \<Rightarrow> Inl e | Inr sliced \<Rightarrow>
        case py_iter sliced of Inl e \<Rightarrow> Inl e | Inr items \<Rightarrow>
          format_results (py_repr be) ''title'' ''snippet'' ''link'' items)"

definition brave_search :: "('t, 'c) backends \<Rightarrow> string \<Rightarrow> int \<Rightarrow> exn + string list" where
  "brave_search be qry num_results =
     (if key_missing (BRAVE_API_KEY be) then Inl (Exception ''Brave API key not set in environment.'')
      else
        case brave_request be qry num_results of Inl m \<Rightarrow> Inl (ExternalError m) | Inr data \<Rightarrow>
        case py_get data (PStr ''web'') (PDict []) of Inl e \<Rightarrow> Inl e | Inr web \<Rightarrow>
        case py_get web (PStr ''results'') (PList []) of Inl e \<Rightarrow> Inl e | Inr found \<Rightarrow>
        case py_slice_upto found num_results of Inl e \<Rightarrow> Inl e | Inr sliced \<Rightarrow>
        case py_iter sliced of Inl e \<Rightarrow> Inl e | Inr items \<Rightarrow>
          format_results (py_repr be) ''title'' ''description'' ''url'' items)"

text \<open>
  \<^verbatim>\<open>web_search\<close>: SerpAPI first; on an exception Brave; on an exception of Brave the
  empty list. The result is a sum so that ``never raises'' is a statement about the
  function and not about its type.
\<close>

definition web_search :: "('t, 'c) backends \<Rightarrow> string \<Rightarrow> int \<Rightarrow> exn + string list" where
  "web_search be qry num_results =
     (case serpapi_search be qry num_results of
        Inr results \<Rightarrow> Inr results
      | Inl e \<Rightarrow>
          (case brave_search be qry num_results of
             Inr results \<Rightarrow> Inr results
           | Inl e2 \<Rightarrow> Inr []))"

text \<open>The form of an entry: \<^verbatim>\<open>title: snippet (url)\<close>.\<close>

definition formatted_entry :: "string \<Rightarrow> bool" where
  "formatted_entry s = (\<exists>title snippet url. s = title @ '': '' @ snippet @ '' ('' @ url @ '')'')"

subsection \<open>The workflow run (\<^verbatim>\<open>routes/workflow.py\<close>)\<close>

record 't WorkflowRunRequest =
  workflow :: "(string \<times> pyval) list"
  query :: string
  preferred_model :: "string option"
  temperature :: 't
  use_knowledge_base :: "bool option"
  max_context_chunks :: "int option"

record WorkflowRunResponse =
  run_response :: string
  run_model_used :: string
  context_used :: "string option"
  run_success :: bool
  run_error :: "string option"

text \<open>
  How a run ends when it does not return a response: the \<^verbatim>\<open>HTTPException\<close> of the
  handler (status and detail), or an exception that nothing catches.
\<close>

datatype failure = HTTPException nat string | Uncaught exn

text \<open>
  What a run leaves behind: its outcome, the calls of \<^verbatim>\<open>log_execution\<close> in order
  (the emitted entries), the table \<^verbatim>\<open>execution_logs\<close> afterwards, and the calls made
  to the LLM providers.
\<close>

record 'c run_result =
  outcome :: "failure + WorkflowRunResponse"
  log_calls :: "'c ExecutionLog list"
  execution_logs :: "'c ExecutionLog list"
  llm_calls :: "llm_call list"

text \<open>
  Configuration extraction: the first node whose \<^verbatim>\<open>type\<close> is \<^verbatim>\<open>llmEngine\<close>
  (the loop breaks there), then \<^verbatim>\<open>useWebSearch\<close> and \<^verbatim>\<open>model\<close> of its
  configuration. The result is the pair \<open>(use_web_search, selected_model)\<close>.
\<close>

fun find_llm_node :: "pyval list \<Rightarrow> exn + pyval option" where
  "find_llm_node [] = Inr None"
| "find_llm_node (n # ns) =
     (case py_get n (PStr ''type'') PNone of
        Inl e \<Rightarrow> Inl e
      | Inr t \<Rightarrow> if t = PStr ''llmEngine'' then Inr (Some n) else find_llm_node ns)"

definition pyval_of_optional :: "string option \<Rightarrow> pyval" where
  "pyval_of_optional s = (case s of None \<Rightarrow> PNone | Some x \<Rightarrow> PStr x)"

definition llm_engine_config :: "'t WorkflowRunRequest \<Rightarrow> exn + pyval \<times> pyval" where
  "llm_engine_config request =
     (let use_web_search = PBool False;
          selected_model = pyval_of_optional (preferred_model request)
      in if workflow request \<noteq> [] \<and> map_of (workflow request) ''nodes'' \<noteq> None
            \<and> map_of (workflow request) ''configs'' \<noteq> None then
           case py_getitem_str (PDict (workflow request)) ''nodes'' of Inl e \<Rightarrow> Inl e | Inr nodes \<Rightarrow>
           case py_iter nodes of Inl e \<Rightarrow> Inl e | Inr ns \<Rightarrow>
           case find_llm_node ns of Inl e \<Rightarrow> Inl e | Inr llm_node \<Rightarrow>
             (case llm_node of
                None \<Rightarrow> Inr (use_web_search, selected_model)
              | Some n \<Rightarrow>
                  if truthy n then
                    case py_getitem_str n ''id'' of Inl e \<Rightarrow> Inl e | Inr node_id \<Rightarrow>
                    case py_getitem_str (PDict (workflow request)) ''configs'' of Inl e \<Rightarrow> Inl e | Inr configs \<Rightarrow>
                    case py_get configs node_id (PDict []) of Inl e \<Rightarrow> Inl e | Inr llm_config \<Rightarrow>
                    case py_get llm_config (PStr ''useWebSearch'') (PBool False) of Inl e \<Rightarrow> Inl e | Inr uws \<Rightarrow>
                    case py_get llm_config (PStr ''model'') selected_model of Inl e \<Rightarrow> Inl e | Inr model \<Rightarrow>
                      Inr (uws, model)
                  else Inr (use_web_search, selected_model))
         else Inr (use_web_search, selected_model))"

text \<open>Knowledge-base context.\<close>

definition search_similar_chunks :: "('t, 'c) backends \<Rightarrow> string \<Rightarrow> int option \<Rightarrow> exn + pyval" where
  "search_similar_chunks be qry n_results =
     (case chroma_query be qry n_results of
        Inr results \<Rightarrow> Inr results
      | Inl m \<Rightarrow> Inl (Exception (''Error searching similar chunks: '' @ m)))"

text \<open>
  The \<^verbatim>\<open>enumerate\<close> loop: a document that is not truthy is skipped, and the index
  counts every document.
\<close>

fun context_chunks_from :: "(pyval \<Rightarrow> string) \<Rightarrow> nat \<Rightarrow> pyval list \<Rightarrow> string list" where
  "context_chunks_from repr i [] = []"
| "context_chunks_from repr i (doc # docs) =
     (if truthy doc then [''Context '' @ str_nat (i + 1) @ '': '' @ py_str repr doc] else [])
     @ context_chunks_from repr (i + 1) docs"

text \<open>
  The body of the \<^verbatim>\<open>try\<close> around the knowledge-base search: \<open>Inr\<close> the value of
  \<^verbatim>\<open>context\<close> after it, \<open>Inl\<close> the exception raised in it.
\<close>

definition knowledge_base_try :: "('t, 'c) backends \<Rightarrow> string \<Rightarrow> int option \<Rightarrow> exn + string" where
  "knowledge_base_try be qry n_results =
     (case search_similar_chunks be qry n_results of Inl e \<Rightarrow> Inl e | Inr search_results \<Rightarrow>
      if \<not> truthy search_results then Inr '''' else
      case py_contains_str ''documents'' search_results of Inl e \<Rightarrow> Inl e | Inr present \<Rightarrow>
      if \<not> present then Inr '''' else
      case py_getitem_str search_results ''documents'' of Inl e \<Rightarrow> Inl e | Inr documents \<Rightarrow>
      if \<not> truthy documents then Inr '''' else
      case py_getitem_0 documents of Inl e \<Rightarrow> Inl e | Inr first \<Rightarrow>
      case py_iter first of Inl e \<Rightarrow> Inl e | Inr docs \<Rightarrow>
        (let context_chunks = context_chunks_from (py_repr be) 0 docs
         in Inr (if context_chunks \<noteq> [] then join blank_line context_chunks else '''')))"

definition knowledge_base_context :: "('t, 'c) backends \<Rightarrow> 't WorkflowRunRequest \<Rightarrow> string" where
  "knowledge_base_context be request =
     (if use_knowledge_base request = Some True then
        (case knowledge_base_try be (query request) (max_context_chunks request) of
           Inr context \<Rightarrow> context
         | Inl e \<Rightarrow> '''')
      else '''')"

text \<open>Web-search context.\<close>

fun web_result_lines :: "nat \<Rightarrow> string list \<Rightarrow> string list" where
  "web_result_lines i [] = []"
| "web_result_lines i (r # rs) =
     (''Web Result '' @ str_nat (i + 1) @ '': '' @ r) # web_result_lines (i + 1) rs"

definition web_search_context :: "('t, 'c) backends \<Rightarrow> string \<Rightarrow> pyval \<Rightarrow> string" where
  "web_search_context be qry use_web_search =
     (if truthy use_web_search then
        (case web_search be qry 3 of
           Inr web_results \<Rightarrow>
             if web_results \<noteq> [] then join blank_line (web_result_lines 0 web_results) else ''''
         | Inl e \<Rightarrow> '''')
      else '''')"

definition combine_contexts :: "string \<Rightarrow> string \<Rightarrow> string" where
  "combine_contexts context web_context =
     (if web_context \<noteq> [] then
        (if context \<noteq> [] then context @ blank_line @ web_context else web_context)
      else context)"

text \<open>
  The \<^verbatim>\<open>try\<close> block of \<^verbatim>\<open>run_workflow\<close> up to the call of the LLM service:
  \<open>Inr\<close> the generation result and the combined context, \<open>Inl\<close> the exception that
  left the block.
\<close>

definition workflow_try ::
  "LLMService \<Rightarrow> ('t, 'c) backends \<Rightarrow> 't WorkflowRunRequest \<Rightarrow>
     (exn + response_data \<times> string) \<times> llm_call list" where
  "workflow_try svc be request =
     (case llm_engine_config request of
        Inl e \<Rightarrow> (Inl e, [])
      | Inr (use_web_search, selected_model) \<Rightarrow>
          (let context = knowledge_base_context be request;
               web_context = web_search_context be (query request) use_web_search;
               full_context = combine_contexts context web_context;
               generated = generate_response svc be (query request) full_context selected_model
                             (temperature request)
           in (Inr (fst generated, full_context), snd generated)))"

text \<open>
  \<^verbatim>\<open>log_execution\<close>: whatever the database does, the \<^verbatim>\<open>except\<close> prints and the
  function returns.
\<close>

definition log_execution ::
  "('t, 'c) backends \<Rightarrow> 'c ExecutionLog \<Rightarrow> 'c ExecutionLog list \<Rightarrow> (exn + unit) \<times> 'c ExecutionLog list" where
  "log_execution be row rows =
     (case db_insert be row rows of
        (None, rows') \<Rightarrow> (Inr (), rows')
      | (Some m, rows') \<Rightarrow> (Inr (), rows'))"

text \<open>
  The \<^verbatim>\<open>except\<close> handler of \<^verbatim>\<open>run_workflow\<close>: it logs the failed execution and
  raises the \<^verbatim>\<open>HTTPException\<close>. \<open>emitted\<close> are the entries logged before.
\<close>

definition failed_execution ::
  "('t, 'c) backends \<Rightarrow> 't WorkflowRunRequest \<Rightarrow> exn \<Rightarrow> 'c ExecutionLog list \<Rightarrow>
     'c ExecutionLog list \<Rightarrow> llm_call list \<Rightarrow> 'c run_result" where
  "failed_execution be request e emitted rows calls =
     (let row = \<lparr>log_workflow_id = None, log_query = query request, log_response = Some '''',
                 log_model_used = ''unknown'', log_success = False,
                 log_error = Some (exn_str be e),
                 log_execution_time = elapsed_time be (length emitted)\<rparr>;
          logged = log_execution be row rows
      in case fst logged of
           Inr u \<Rightarrow>
             \<lparr>outcome = Inl (HTTPException 500 (''Workflow execution error: '' @ exn_str be e)),
              log_calls = emitted @ [row], execution_logs = snd logged, llm_calls = calls\<rparr>
         | Inl e2 \<Rightarrow>
             \<lparr>outcome = Inl (Uncaught e2),
              log_calls = emitted @ [row], execution_logs = snd logged, llm_calls = calls\<rparr>)"

text \<open>
  Building the \<^verbatim>\<open>WorkflowRunResponse\<close>: the response model validates its fields, and
  \<^verbatim>\<open>response: str\<close> refuses \<^verbatim>\<open>None\<close>. The other fields hold values of their
  declared types.
\<close>

definition build_response :: "response_data \<Rightarrow> string \<Rightarrow> exn + WorkflowRunResponse" where
  "build_response result full_context =
     (case response result of
        None \<Rightarrow> Inl (ValidationError ''response'')
      | Some txt \<Rightarrow>
          Inr \<lparr>run_response = txt,
               run_model_used = model_used result,
               context_used = (if full_context \<noteq> [] then Some full_context else None),
               run_success = success result,
               run_error = Some (error result)\<rparr>)"

text \<open>
  \<^verbatim>\<open>run_workflow\<close>. The execution is logged and the response is built inside the
  \<^verbatim>\<open>try\<close>, in this order, so an exception of either reaches the handler after the
  first entry has been logged.
\<close>

definition run_workflow ::
  "LLMService \<Rightarrow> ('t, 'c) backends \<Rightarrow> 't WorkflowRunRequest \<Rightarrow> 'c ExecutionLog list \<Rightarrow> 'c run_result" where
  "run_workflow svc be request rows =
     (case workflow_try svc be request of
        (Inl e, calls) \<Rightarrow> failed_execution be request e [] rows calls
      | (Inr (result, full_context), calls) \<Rightarrow>
          (let row = \<lparr>log_workflow_id = None, log_query = query request,
                      log_response = response result, log_model_used = model_used result,
                      log_success = success result, log_error = Some (error result),
                      log_execution_time = elapsed_time be 0\<rparr>;
               logged = log_execution be row rows
           in case fst logged of
                Inl e \<Rightarrow> failed_execution be request e [row] (snd logged) calls
              | Inr u \<Rightarrow>
                  (case build_response result full_context of
                     Inl e \<Rightarrow> failed_execution be request e [row] (snd logged) calls
                   | Inr resp \<Rightarrow>
                       \<lparr>outcome = Inr resp, log_calls = [row], execution_logs = snd logged,
                        llm_calls = calls\<rparr>)))"

text \<open>
  The specification's reading of a context block: every item, in order, as
  \<^verbatim>\<open>{label} {1-based index}: {item}\<close>, joined by blank lines.
\<close>

definition spec_context_block :: "string \<Rightarrow> string list \<Rightarrow> string" where
  "spec_context_block label items =
     join blank_line
       (map (\<lambda>(i, item). label @ '' '' @ str_nat (i + 1) @ '': '' @ item) (enumerate 0 items))"

text \<open>
  A workflow definition without the \<^verbatim>\<open>useKnowledgeBase\<close> and
  \<^verbatim>\<open>maxContextChunks\<close> entries of its node configurations.
\<close>

definition without_kb_fields :: "pyval \<Rightarrow> pyval" where
  "without_kb_fields v =
     (case v of
        PDict d \<Rightarrow> PDict (filter (\<lambda>kv. fst kv \<noteq> ''useKnowledgeBase'' \<and> fst kv \<noteq> ''maxContextChunks'') d)
      | _ \<Rightarrow> v)"

definition strip_configs :: "pyval \<Rightarrow> pyval" where
  "strip_configs v =
     (case v of
        PDict cs \<Rightarrow> PDict (map (\<lambda>kc. (fst kc, without_kb_fields (snd kc))) cs)
      | _ \<Rightarrow> v)"

definition strip_kb_fields :: "(string \<times> pyval) list \<Rightarrow> (string \<times> pyval) list" where
  "strip_kb_fields wdef =
     map (\<lambda>kv. if fst kv = ''configs'' then (fst kv, strip_configs (snd kv)) else kv) wdef"

subsection \<open>Test doubles\<close>

text \<open>
  Backends whose clients give fixed outcomes: OpenAI, Gemini (every model), the vector
  index, SerpAPI and Brave (both with a credential), over a database that always
  inserts.
\<close>

definition test_backends ::
  "string + string option \<Rightarrow> string + string \<Rightarrow> string + pyval \<Rightarrow> string + pyval \<Rightarrow>
     string + pyval \<Rightarrow> (unit, unit) backends" where
  "test_backends oa gm kb serp brave =
     \<lparr>openai_chat = (\<lambda>model prompt temp. oa),
      gemini_generate = (\<lambda>model_name prompt temp. gm),
      chroma_query = (\<lambda>qry n. kb),
      SERPAPI_KEY = Some ''serp-key'',
      BRAVE_API_KEY = Some ''brave-key'',
      serpapi_request = (\<lambda>qry n. serp),
      brave_request = (\<lambda>qry n. brave),
      db_insert = (\<lambda>row rows. (None, rows @ [row])),
      elapsed_time = (\<lambda>k. ()),
      py_repr = (\<lambda>v. ''<value>''),
      builtin_message = (\<lambda>e. ''<builtin exception>'')\<rparr>"

definition both_available :: LLMService where
  "both_available = \<lparr>openai_available = True, gemini_available = True\<rparr>"

definition only_gemini :: LLMService where
  "only_gemini = \<lparr>openai_available = False, gemini_available = True\<rparr>"

definition none_available :: LLMService where
  "none_available = \<lparr>openai_available = False, gemini_available = False\<rparr>"

definition all_down :: "(unit, unit) backends" where
  "all_down = test_backends (Inl ''rate limit'') (Inl ''overloaded'') (Inl ''index unavailable'')
                (Inl ''HTTP 500'') (Inl ''HTTP 500'')"

definition gemini_only_up :: "(unit, unit) backends" where
  "gemini_only_up = test_backends (Inl ''rate limit'') (Inr ''ok'') (Inl ''index unavailable'')
                (Inl ''HTTP 500'') (Inl ''HTTP 500'')"

definition brave_answer :: pyval where
  "brave_answer = PDict [(''web'', PDict [(''results'',
       PList [PDict [(''title'', PStr ''T''), (''description'', PStr ''D''), (''url'', PStr ''U'')]])])]"

definition brave_up :: "(unit, unit) backends" where
  "brave_up = test_backends (Inl ''rate limit'') (Inr ''ok'') (Inl ''index unavailable'')
                (Inl ''HTTP 500'') (Inr brave_answer)"

text \<open>
  Requests: one with an empty workflow definition, and one whose LLM engine node has
  no \<^verbatim>\<open>id\<close>. \<open>database_down\<close> are backends whose database refuses every insert.
\<close>

definition plain_request :: "unit WorkflowRunRequest" where
  "plain_request = \<lparr>workflow = [], query = ''q'', preferred_model = Some ''auto'', temperature = (),
                     use_knowledge_base = Some True, max_context_chunks = Some 3\<rparr>"

definition node_without_id :: "unit WorkflowRunRequest" where
  "node_without_id =
     \<lparr>workflow = [(''nodes'', PList [PDict [(''type'', PStr ''llmEngine'')]]), (''configs'', PDict [])],
      query = ''q'', preferred_model = Some ''auto'', temperature = (),
      use_knowledge_base = Some True, max_context_chunks = Some 3\<rparr>"

definition database_down :: "(unit, unit) backends" where
  "database_down = gemini_only_up\<lparr>db_insert := (\<lambda>row rows. (Some ''connection refused'', rows))\<rparr>"

text \<open>
  Backends whose vector index returns an empty chunk before the chunk \<open>foo\<close>, and a
  request over a workflow whose LLM engine node turns web search on and selects Gemini.
\<close>

definition index_with_empty_chunk :: "(unit, unit) backends" where
  "index_with_empty_chunk =
     test_backends (Inl ''rate limit'') (Inr ''ok'')
       (Inr (PDict [(''documents'', PList [PList [PStr '''', PStr ''foo'']])]))
       (Inl ''HTTP 500'') (Inl ''HTTP 500'')"

definition web_request :: "unit WorkflowRunRequest" where
  "web_request =
     \<lparr>workflow = [(''nodes'', PList [PDict [(''id'', PStr ''1''), (''type'', PStr ''userQuery'')],
                                      PDict [(''id'', PStr ''2''), (''type'', PStr ''llmEngine'')],
                                      PDict [(''id'', PStr ''3''), (''type'', PStr ''llmEngine'')]]),
                  (''edges'', PList []),
                  (''configs'', PDict [(''2'', PDict [(''model'', PStr ''gemini''),
                                                     (''useWebSearch'', PBool True),
                                                     (''useKnowledgeBase'', PBool False),
                                                     (''maxContextChunks'', PNum 7)]),
                                       (''3'', PDict [(''model'', PStr ''openai'')])])],
      query = ''q'', preferred_model = Some ''auto'', temperature = (),
      use_knowledge_base = Some True, max_context_chunks = Some 3\<rparr>"

text \<open>
  Backends whose vector index returns the chunks \<open>foo\<close> and \<open>bar\<close> and whose Brave
  search returns one result.
\<close>

definition index_foo_bar :: "(unit, unit) backends" where
  "index_foo_bar =
     test_backends (Inl ''rate limit'') (Inr ''ok'')
       (Inr (PDict [(''ids'', PList [PList [PStr ''doc_1_chunk_0'', PStr ''doc_1_chunk_1'']]),
                    (''documents'', PList [PList [PStr ''foo'', PStr ''bar'']])]))
       (Inl ''HTTP 500'') (Inr brave_answer)"

text \<open>Backends where every service answers.\<close>

definition all_up :: "(unit, unit) backends" where
  "all_up = test_backends (Inr (Some ''hello'')) (Inr ''ok'')
              (Inr (PDict [(''documents'', PList [PList [PStr ''foo'', PStr ''bar'']])]))
              (Inl ''HTTP 500'') (Inr brave_answer)"

text \<open>
  Backends whose OpenAI client answers with a message without content, and a request
  that names OpenAI.
\<close>

definition openai_without_content :: "(unit, unit) backends" where
  "openai_without_content =
     test_backends (Inr None) (Inr ''ok'') (Inl ''index unavailable'') (Inl ''HTTP 500'') (Inl ''HTTP 500'')"

definition openai_request :: "unit WorkflowRunRequest" where
  "openai_request = \<lparr>workflow = [], query = ''q'', preferred_model = Some ''openai'', temperature = (),
                      use_knowledge_base = Some False, max_context_chunks = Some 3\<rparr>"

section \<open>Theorems\<close>

subsection \<open>Text chunking\<close>

lemma py_slice_window:
  assumes "a < length xs"
  shows "py_slice xs (int a) (int a + int c) = take c (drop a xs)"
proof -
  have s: "py_clamp_index (length xs) (int a) = a"
    using assms by (simp add: py_clamp_index_def)
  have e: "py_clamp_index (length xs) (int a + int c) = min (length xs) (a + c)"
    by (simp add: py_clamp_index_def nat_add_distrib)
  have "take (min (length xs) (a + c) - a) (drop a xs) = take c (drop a xs)"
    using assms by (cases "a + c \<le> length xs") (simp_all add: min_def)
  then show ?thesis by (simp add: py_slice_def s e)
qed

lemma window_count_iff:
  assumes "0 < step"
  shows "k < window_count n step \<longleftrightarrow> k * step < n"
proof -
  have "window_count n step \<le> k \<longleftrightarrow> n + step - 1 < Suc k * step"
    unfolding window_count_def using assms
    by (metis div_less_iff_less_mult less_Suc_eq_le)
  also have "\<dots> \<longleftrightarrow> n \<le> k * step" using assms by auto
  finally show ?thesis by auto
qed

lemma chunk_loop_windows:
  assumes "v < c"
  shows "k * (c - v) < length text \<Longrightarrow>
         chunk_loop text (int c) (int v) acc (int (k * (c - v))) =
           Some (acc @ map (\<lambda>j. take c (drop (j * (c - v)) text))
                          [k ..< window_count (length text) (c - v)])"
proof (induction "window_count (length text) (c - v) - k" arbitrary: k acc)
  case 0
  then show ?case using window_count_iff [of "c - v" k "length text"] assms by simp
next
  case (Suc d)
  let ?s = "c - v"
  let ?n = "window_count (length text) ?s"
  have pos: "0 < ?s" using assms by simp
  have kn: "k < ?n" using Suc.hyps(2) by simp
  have sd: "int ?s = int c - int v" using assms by simp
  have "int (Suc k * ?s) = int (k * ?s) + int ?s" by simp
  then have nxt: "int (k * ?s) + int c - int v = int (Suc k * ?s)"
    unfolding sd by simp
  have sl: "py_slice text (int (k * ?s)) (int (k * ?s) + int c) = take c (drop (k * ?s) text)"
    using Suc.prems by (rule py_slice_window)
  have c1: "int (k * ?s) < int (length text)" using Suc.prems by linarith
  have up: "[k ..< ?n] = k # [Suc k ..< ?n]" using kn by (simp add: upt_conv_Cons)
  show ?case
  proof (cases "Suc k * ?s < length text")
    case True
    then have c2: "\<not> int (length text) \<le> int (Suc k * ?s)" by linarith
    have d: "d = ?n - Suc k" using Suc.hyps(2) by simp
    have "chunk_loop text (int c) (int v) acc (int (k * ?s)) =
          chunk_loop text (int c) (int v) (acc @ [take c (drop (k * ?s) text)]) (int (Suc k * ?s))"
      using c1 c2
      by (subst chunk_loop.simps) (simp only: Let_def nxt sl if_True if_False)
    also have "\<dots> = Some ((acc @ [take c (drop (k * ?s) text)]) @
                 map (\<lambda>j. take c (drop (j * ?s) text)) [Suc k ..< ?n])"
      using Suc.hyps(1) [OF d True] .
    finally show ?thesis by (simp add: up)
  next
    case False
    then have "\<not> Suc k < ?n" using window_count_iff [OF pos] by blast
    then have e: "[Suc k ..< ?n] = []" by simp
    have c3: "int (length text) \<le> int (Suc k * ?s)" using False by linarith
    have "chunk_loop text (int c) (int v) acc (int (k * ?s)) =
          Some (acc @ [take c (drop (k * ?s) text)])"
      using c1 c3
      by (subst chunk_loop.simps) (simp only: Let_def nxt sl if_True if_False)
    then show ?thesis by (simp add: up e)
  qed
qed

lemma split_windows:
  assumes "v < c" "c < length text"
  shows "split_text_into_chunks text (int c) (int v) = Some (spec_windows text c v)"
proof -
  have ne: "0 * (c - v) < length text" using assms by (cases "text") simp_all
  have "chunk_loop text (int c) (int v) [] 0 = Some (spec_windows text c v)"
    using chunk_loop_windows [OF assms(1) ne, of "[]"] by (simp add: spec_windows_def)
  then show ?thesis using assms by (simp add: split_text_into_chunks_def)
qed


lemma length_spec_windows:
  "length (spec_windows text c v) = window_count (length text) (c - v)"
  by (simp add: spec_windows_def)

lemma nth_spec_windows:
  assumes "i < length (spec_windows text c v)"
  shows "spec_windows text c v ! i = take c (drop (i * (c - v)) text)"
  using assms by (simp add: spec_windows_def)

lemma spec_windows_start:
  assumes "v < c" "i < length (spec_windows text c v)"
  shows "i * (c - v) < length text"
  using assms window_count_iff [of "c - v" i "length text"]
  by (simp add: length_spec_windows)

lemma length_nth_spec_windows:
  assumes "v < c" "i < length (spec_windows text c v)"
  shows "length (spec_windows text c v ! i) = min c (length text - i * (c - v))"
  using assms by (simp add: nth_spec_windows min.commute)

lemma spec_windows_nonempty:
  assumes "v < c" "w \<in> set (spec_windows text c v)"
  shows "w \<noteq> []"
proof -
  from assms(2) obtain i where i: "i < length (spec_windows text c v)"
    and w: "w = spec_windows text c v ! i"
    by (auto simp: in_set_conv_nth)
  have "0 < length w"
    using spec_windows_start [OF assms(1) i] assms(1)
    by (simp add: w length_nth_spec_windows [OF assms(1) i])
  then show ?thesis by simp
qed

lemma spec_windows_cover:
  assumes "v < c" "p < length text"
  shows "\<exists>i < length (spec_windows text c v).
           i * (c - v) \<le> p \<and> p < i * (c - v) + length (spec_windows text c v ! i) \<and>
           spec_windows text c v ! i ! (p - i * (c - v)) = text ! p"
proof -
  let ?s = "c - v"
  let ?i = "p div ?s"
  have pos: "0 < ?s" using assms by simp
  have lo: "?i * ?s \<le> p" by simp
  have hi: "p < ?i * ?s + ?s" using pos
    by (metis add.commute div_mult_mod_eq mod_less_divisor nat_add_left_cancel_less mult.commute)
  have "?i * ?s < length text" using lo assms(2) by linarith
  then have i: "?i < length (spec_windows text c v)"
    using window_count_iff [OF pos] by (simp add: length_spec_windows)
  define q where "q = ?i * ?s"
  have "p < q + c" "p < q + (length text - q)"
    using hi lo assms(2) unfolding q_def by linarith+
  then have "p < q + min c (length text - q)" by (simp add: min_def)
  then have len: "p < ?i * ?s + length (spec_windows text c v ! ?i)"
    unfolding q_def by (simp only: length_nth_spec_windows [OF assms(1) i])
  have pc: "p - q < c" using \<open>p < q + c\<close> lo unfolding q_def by linarith
  have qp: "q + (p - q) = p" using lo unfolding q_def by simp
  have "take c (drop q text) ! (p - q) = text ! p"
    using pc qp assms(2) by simp
  then have "spec_windows text c v ! ?i ! (p - ?i * ?s) = text ! p"
    unfolding q_def by (simp only: nth_spec_windows [OF i])
  with i lo len show ?thesis by blast
qed

lemma card_interval_inter:
  "card ({a ..< b} \<inter> {c ..< d}) = min b d - max a (c::nat)"
  by simp

lemma spec_windows_shared:
  assumes "v < c" "Suc i < length (spec_windows text c v)"
  shows "shared_chars c v (spec_windows text c v) i =
           min v (length (spec_windows text c v ! Suc i))"
proof -
  let ?s = "c - v"
  have i: "i < length (spec_windows text c v)" using assms(2) by simp
  have st: "Suc i * ?s < length text" using spec_windows_start [OF assms] .
  have l0: "length (spec_windows text c v ! i) = min c (length text - i * ?s)"
    by (rule length_nth_spec_windows [OF assms(1) i])
  have l1: "length (spec_windows text c v ! Suc i) = min c (length text - Suc i * ?s)"
    by (rule length_nth_spec_windows [OF assms])
  have nx: "Suc i * ?s = i * ?s + ?s" by simp
  define q where "q = i * ?s"
  define n where "n = length text"
  define s where "s = c - v"
  have st': "q + s < n" using st unfolding nx q_def n_def s_def .
  have cs: "c = s + v" using assms(1) unfolding s_def by simp
  have e0: "q + min c (n - q) = min (q + c) n"
    using st' by (auto simp: min_def)
  have e1: "q + s + min c (n - (q + s)) = min (q + s + c) n"
    using st' by (auto simp: min_def)
  have e2: "min (min (q + c) n) (min (q + s + c) n) = min (q + c) n"
    by (simp add: min_def)
  have e3: "max q (q + s) = q + s" by simp
  have e4: "min (q + c) n - (q + s) = min v (n - (q + s))"
    using st' unfolding cs by (auto simp: min_def)
  have e5: "min v (min c (n - (q + s))) = min v (n - (q + s))"
    unfolding cs by (simp add: min_def)
  have "min (q + min c (n - q)) (q + s + min c (n - (q + s))) - max q (q + s)
          = min v (min c (n - (q + s)))"
    unfolding e0 e1 e2 e3 e4 e5 ..
  then show ?thesis
    unfolding shared_chars_def card_interval_inter l0 l1 nx q_def n_def s_def .
qed


lemma split_small:
  "int (length text) \<le> chunk_size \<Longrightarrow> split_text_into_chunks text chunk_size overlap = Some [text]"
  by (simp add: split_text_into_chunks_def)

text \<open>
  The example of the specification: 1000 times \<open>A\<close> followed by 500 times \<open>B\<close>, chunk
  size 1000 and overlap 200, gives two chunks, the second starting at offset 800.
\<close>

lemma split_example:
  "split_text_into_chunks (replicate 1000 CHR ''A'' @ replicate 500 CHR ''B'') 1000 200 =
     Some [replicate 1000 CHR ''A'', replicate 200 CHR ''A'' @ replicate 500 CHR ''B'']"
proof -
  let ?t = "replicate 1000 CHR ''A'' @ replicate 500 CHR ''B''"
  have wc: "window_count (length ?t) (1000 - 200) = 2"
    by (simp add: window_count_def)
  have up: "[0 ..< 2] = [0, Suc 0]" by (simp add: upt_conv_Cons)
  have w0: "take 1000 (drop (0 * (1000 - 200)) ?t) = replicate 1000 CHR ''A''" by simp
  have r: "replicate 1000 CHR ''A'' = replicate 800 CHR ''A'' @ replicate 200 CHR ''A''"
    by (simp add: replicate_add [symmetric])
  have w1: "take 1000 (drop (Suc 0 * (1000 - 200)) ?t) = replicate 200 CHR ''A'' @ replicate 500 CHR ''B''"
    by (simp add: r)
  have "spec_windows ?t 1000 200 = [replicate 1000 CHR ''A'', replicate 200 CHR ''A'' @ replicate 500 CHR ''B'']"
    unfolding spec_windows_def wc up by (simp only: list.map w0 w1)
  moreover have "split_text_into_chunks ?t (int 1000) (int 200) = Some (spec_windows ?t 1000 200)"
    by (rule split_windows) simp_all
  ultimately show ?thesis by simp
qed

text \<open>
  Why the theorem below asks for \<open>overlap < chunk_size\<close>: with
  \<open>overlap \<ge> chunk_size\<close> the start of the window does not advance, and on a
  non-empty text longer than \<open>chunk_size\<close> the loop never returns.
\<close>

lemma chunk_loop_no_result:
  assumes "chunk_loop text chunk_size overlap chunks start = Some y"
  shows "chunk_size \<le> overlap \<longrightarrow> \<not> start < int (length text)"
proof (rule chunk_loop.raw_induct
    [where P = "\<lambda>t c v ch s y. c \<le> v \<longrightarrow> \<not> s < int (length t)", OF _ assms])
  fix loop :: "'a list \<Rightarrow> int \<Rightarrow> int \<Rightarrow> 'a list list \<Rightarrow> int \<Rightarrow> 'a list list option"
  fix t0 c v ch s r
  assume IH: "\<And>t c v ch s y. loop t c v ch s = Some y \<Longrightarrow> c \<le> v \<longrightarrow> \<not> s < int (length t)"
  assume body: "(if s < int (length t0)
      then let stop = s + c; chunk = py_slice t0 s stop; chunks' = ch @ [chunk]; start' = stop - v
           in if int (length t0) \<le> start' then Some chunks' else loop t0 c v chunks' start'
      else Some ch) = Some r"
  show "c \<le> v \<longrightarrow> \<not> s < int (length t0)"
  proof (intro impI notI)
    assume le: "c \<le> v" and lt: "s < int (length t0)"
    then have nxt: "s + c - v < int (length t0)" by linarith
    then have "loop t0 c v (ch @ [py_slice t0 s (s + c)]) (s + c - v) = Some r"
      using body lt by (simp add: Let_def)
    from IH [OF this] le nxt show False by simp
  qed
qed

lemma chunk_loop_stuck:
  assumes "chunk_size \<le> overlap" "start < int (length text)"
  shows "chunk_loop text chunk_size overlap chunks start = None"
proof (cases "chunk_loop text chunk_size overlap chunks start")
  case None
  then show ?thesis .
next
  case (Some y)
  from chunk_loop_no_result [OF Some] assms show ?thesis by simp
qed

lemma split_text_into_chunks_stuck:
  assumes "chunk_size \<le> overlap" "chunk_size < int (length text)" "text \<noteq> []"
  shows "split_text_into_chunks text chunk_size overlap = None"
  using assms by (simp add: split_text_into_chunks_def chunk_loop_stuck)

text \<open>
  Claim C2, as the code has it. For every text: when the text is no longer than
  \<open>chunk_size\<close>, \<open>split_text_into_chunks\<close> returns the one-element sequence holding the
  text. Otherwise, for \<open>0 \<le> overlap < chunk_size\<close>, the loop terminates and returns
  the windows \<open>text[start : start + chunk_size]\<close> for \<open>start = 0, chunk_size - overlap,
  2 * (chunk_size - overlap), \<dots>\<close> below the length of the text, the final partial windows
  included; every position of the text lies in some chunk, which holds the text's
  character there; no chunk is empty; and two adjacent chunks share
  \<open>min overlap (length of the later chunk)\<close> positions: exactly \<open>overlap\<close> unless the
  later chunk is a trailing window shorter than \<open>overlap\<close>. In particular the
  specification's example (1000 \<open>A\<close>s and 500 \<open>B\<close>s, chunk size 1000, overlap 200)
  yields exactly two chunks, the second starting at offset 800.
\<close>

theorem split_text_into_chunks_windows:
  "(int (length text) \<le> chunk_size \<longrightarrow>
            split_text_into_chunks text chunk_size overlap = Some [text]) \<and>
         (0 \<le> overlap \<and> overlap < chunk_size \<and> chunk_size < int (length text) \<longrightarrow>
            (\<exists>chunks. split_text_into_chunks text chunk_size overlap = Some chunks \<and>
               chunks = map (\<lambda>k. take (nat chunk_size) (drop (k * nat (chunk_size - overlap)) text))
                            [0 ..< window_count (length text) (nat (chunk_size - overlap))] \<and>
               (\<forall>p < length text. \<exists>i < length chunks.
                   i * nat (chunk_size - overlap) \<le> p \<and>
                   p < i * nat (chunk_size - overlap) + length (chunks ! i) \<and>
                   chunks ! i ! (p - i * nat (chunk_size - overlap)) = text ! p) \<and>
               (\<forall>w \<in> set chunks. w \<noteq> []) \<and>
               (\<forall>i. Suc i < length chunks \<longrightarrow>
                   shared_chars (nat chunk_size) (nat overlap) chunks i =
                     min (nat overlap) (length (chunks ! Suc i))))) \<and>
         split_text_into_chunks (replicate 1000 CHR ''A'' @ replicate 500 CHR ''B'') 1000 200 =
           Some [replicate 1000 CHR ''A'', replicate 200 CHR ''A'' @ replicate 500 CHR ''B'']"
proof (intro conjI impI)
  show "split_text_into_chunks (replicate 1000 CHR ''A'' @ replicate 500 CHR ''B'') 1000 200 =
           Some [replicate 1000 CHR ''A'', replicate 200 CHR ''A'' @ replicate 500 CHR ''B'']"
    by (rule split_example)
next
  assume "int (length text) \<le> chunk_size"
  then show "split_text_into_chunks text chunk_size overlap = Some [text]"
    by (rule split_small)
next
  assume h: "0 \<le> overlap \<and> overlap < chunk_size \<and> chunk_size < int (length text)"
  define c where "c = nat chunk_size"
  define v where "v = nat overlap"
  have cv: "v < c" "c < length text" using h unfolding c_def v_def by linarith+
  have ci: "chunk_size = int c" "overlap = int v" using h by (simp_all add: c_def v_def)
  have st: "nat (chunk_size - overlap) = c - v" using h by (simp add: c_def v_def nat_diff_distrib)
  let ?ch = "spec_windows text c v"
  have 1: "split_text_into_chunks text chunk_size overlap = Some ?ch"
    unfolding ci by (rule split_windows [OF cv])
  have 2: "?ch = map (\<lambda>k. take c (drop (k * (c - v)) text)) [0 ..< window_count (length text) (c - v)]"
    by (simp add: spec_windows_def)
  have 3: "\<forall>p < length text. \<exists>i < length ?ch.
              i * (c - v) \<le> p \<and> p < i * (c - v) + length (?ch ! i) \<and>
              ?ch ! i ! (p - i * (c - v)) = text ! p"
    using spec_windows_cover [OF cv(1)] by blast
  have 4: "\<forall>w \<in> set ?ch. w \<noteq> []"
    using spec_windows_nonempty [OF cv(1)] by blast
  have 5: "\<forall>i. Suc i < length ?ch \<longrightarrow> shared_chars c v ?ch i = min v (length (?ch ! Suc i))"
    using spec_windows_shared [OF cv(1)] by blast
  show "\<exists>chunks. split_text_into_chunks text chunk_size overlap = Some chunks \<and>
               chunks = map (\<lambda>k. take (nat chunk_size) (drop (k * nat (chunk_size - overlap)) text))
                            [0 ..< window_count (length text) (nat (chunk_size - overlap))] \<and>
               (\<forall>p < length text. \<exists>i < length chunks.
                   i * nat (chunk_size - overlap) \<le> p \<and>
                   p < i * nat (chunk_size - overlap) + length (chunks ! i) \<and>
                   chunks ! i ! (p - i * nat (chunk_size - overlap)) = text ! p) \<and>
               (\<forall>w \<in> set chunks. w \<noteq> []) \<and>
               (\<forall>i. Suc i < length chunks \<longrightarrow>
                   shared_chars (nat chunk_size) (nat overlap) chunks i =
                     min (nat overlap) (length (chunks ! Suc i)))"
    unfolding st c_def [symmetric] v_def [symmetric]
    using 1 2 3 4 5 by blast
qed

text \<open>
  The theorem at the texts \<open>abcde\<close> (longer than the chunk size 4, overlap 2) and
  \<open>abc\<close> (shorter).
\<close>

theorem split_text_into_chunks_windows_witness:
  "split_text_into_chunks ''abcde'' 4 2 = Some [''abcd'', ''cde'', ''e''] \<and>
   split_text_into_chunks ''abc'' 4 2 = Some [''abc'']"
proof -
  have wc: "window_count (length ''abcde'') (nat (4 - 2)) = 3"
    by (simp add: window_count_def)
  have up: "[0 ..< 3] = [0, 1, 2]" by (simp add: upt_conv_Cons)
  have h: "(0::int) \<le> 2 \<and> (2::int) < 4 \<and> 4 < int (length ''abcde'')" by simp
  have a: "split_text_into_chunks ''abcde'' 4 2 = Some [''abcd'', ''cde'', ''e'']"
    using split_text_into_chunks_windows [of "''abcde''" 4 2] h
    unfolding wc up by auto
  have b: "split_text_into_chunks ''abc'' 4 2 = Some [''abc'']"
    using split_text_into_chunks_windows [of "''abc''" 4 2] by simp
  show ?thesis using a b by simp
qed

text \<open>
  Claim C2 as stated says that adjacent chunks share exactly \<open>overlap\<close> characters.
  For the text \<open>abcde\<close> with chunk size 4 and overlap 2 the loop starts windows at
  0, 2 and 4: the third chunk is the single character \<open>e\<close>, so the second and third
  chunk share one position, not two.
\<close>

theorem split_text_into_chunks_overlap_counterexample:
  "split_text_into_chunks ''abcde'' 4 2 = Some [''abcd'', ''cde'', ''e''] \<and>
   shared_chars 4 2 [''abcd'', ''cde'', ''e''] 1 \<noteq> 2"
  by (simp add: split_text_into_chunks_def chunk_loop.simps py_slice_def py_clamp_index_def
      Let_def shared_chars_def)

subsection \<open>Model selection and fallback\<close>

lemma openai_raises:
  "fst (generate_response_openai be q ctx m t) = Inl e \<Longrightarrow> raised_by_repo e"
  by (auto simp: generate_response_openai_def Let_def raised_by_repo_def split: sum.splits)

lemma gemini_raises:
  "fst (generate_response_gemini be q ctx t) = Inl e \<Longrightarrow> raised_by_repo e"
  by (auto simp: generate_response_gemini_def Let_def raised_by_repo_def split: option.splits)

lemma generate_response_try_raises:
  assumes "fst (generate_response_try svc be q ctx pm t) = Inl e"
  shows "raised_by_repo e"
proof -
  have n: "raised_by_repo (Exception ''No LLM services available'')"
    by (simp add: raised_by_repo_def)
  have p: "raised_by_repo (Exception (''Preferred model '' @ [CHR 0x27] @ py_str (py_repr be) pm @ [CHR 0x27]
                                 @ '' not available''))"
    by (simp add: raised_by_repo_def)
  show ?thesis
    using assms n p openai_raises [of be q ctx "''gpt-4o-mini''" t] gemini_raises [of be q ctx t]
    by (auto simp: generate_response_try_def Let_def split: if_splits sum.splits)
qed

lemma generate_response_try_returns:
  assumes "fst (generate_response_try svc be q ctx pm t) = Inr rd"
  shows "success rd \<and> error rd = []"
  using assms
  by (auto simp: generate_response_try_def initial_response_data_def Let_def split: if_splits sum.splits)

lemma exn_str_raised: "raised_by_repo e \<Longrightarrow> exn_str be e \<noteq> []"
  by (cases e) (simp_all add: raised_by_repo_def)

lemma all_down_openai:
  "fst (generate_response_openai all_down ''q'' [] ''gpt-4o-mini'' ()) =
     Inl (Exception ''OpenAI API error: rate limit'')"
  by (simp add: generate_response_openai_def all_down_def test_backends_def Let_def)

lemma all_down_gemini:
  "fst (generate_response_gemini all_down ''q'' [] ()) =
     Inl (Exception ''Gemini API error: All Gemini models are unavailable'')"
  by (simp add: generate_response_gemini_def gemini_models_def all_down_def test_backends_def Let_def)

lemma gemini_only_up_openai:
  "fst (generate_response_openai gemini_only_up ''q'' [] ''gpt-4o-mini'' ()) =
     Inl (Exception ''OpenAI API error: rate limit'')"
  by (simp add: generate_response_openai_def gemini_only_up_def test_backends_def Let_def)

lemma gemini_only_up_gemini:
  "fst (generate_response_gemini gemini_only_up ''q'' [] ()) = Inr ''ok''"
  by (simp add: generate_response_gemini_def gemini_models_def gemini_only_up_def test_backends_def Let_def)

lemma all_up_openai:
  "fst (generate_response_openai all_up ''q'' [] ''gpt-4o-mini'' ()) = Inr (Some ''hello'')"
  by (simp add: generate_response_openai_def all_up_def test_backends_def Let_def)

text \<open>
  Claim C1, as the code has it. With \<open>preferred_model = "auto"\<close>:
  \<^item> OpenAI is available and its call succeeds: the result is OpenAI's response with
    \<open>model_used = "openai"\<close>, \<open>success = true\<close> and an empty error;
  \<^item> OpenAI is available and its call raises, Gemini is available and its call
    succeeds: the result is Gemini's response with \<open>model_used = "gemini"\<close>,
    \<open>success = true\<close> and an empty error (the error of OpenAI is not surfaced);
  \<^item> OpenAI is available and its call raises, Gemini is available and its call raises
    too: the result is \<open>success = false\<close> with the error of Gemini;
  \<^item> OpenAI is unavailable and Gemini is available: Gemini is tried directly (the only
    calls are Gemini's), its response is the result, and its failure yields
    \<open>success = false\<close> with its error;
  \<^item> neither is available: \<open>success = false\<close> with the error
    \<open>No LLM services available\<close>, and no call is made.
\<close>

theorem generate_response_auto:
  "(openai_available svc \<and> fst (generate_response_openai be q ctx ''gpt-4o-mini'' t) = Inr r \<longrightarrow>
      fst (generate_response svc be q ctx (PStr ''auto'') t) =
        \<lparr>response = r, model_used = ''openai'', success = True, error = ''''\<rparr>) \<and>
   (openai_available svc \<and> fst (generate_response_openai be q ctx ''gpt-4o-mini'' t) = Inl e \<and>
    gemini_available svc \<and> fst (generate_response_gemini be q ctx t) = Inr r' \<longrightarrow>
      fst (generate_response svc be q ctx (PStr ''auto'') t) =
        \<lparr>response = Some r', model_used = ''gemini'', success = True, error = ''''\<rparr>) \<and>
   (openai_available svc \<and> fst (generate_response_openai be q ctx ''gpt-4o-mini'' t) = Inl e \<and>
    gemini_available svc \<and> fst (generate_response_gemini be q ctx t) = Inl e' \<longrightarrow>
      fst (generate_response svc be q ctx (PStr ''auto'') t) =
        \<lparr>response = Some '''', model_used = '''', success = False, error = exn_str be e'\<rparr>) \<and>
   (\<not> openai_available svc \<and> gemini_available svc \<longrightarrow>
      generate_response svc be q ctx (PStr ''auto'') t =
        (case fst (generate_response_gemini be q ctx t) of
           Inr r \<Rightarrow> \<lparr>response = Some r, model_used = ''gemini'', success = True, error = ''''\<rparr>
         | Inl e \<Rightarrow> \<lparr>response = Some '''', model_used = '''', success = False, error = exn_str be e\<rparr>,
         snd (generate_response_gemini be q ctx t))) \<and>
   (\<not> openai_available svc \<and> \<not> gemini_available svc \<longrightarrow>
      generate_response svc be q ctx (PStr ''auto'') t =
        (\<lparr>response = Some '''', model_used = '''', success = False, error = ''No LLM services available''\<rparr>, []))"
  by (auto simp: generate_response_def generate_response_try_def initial_response_data_def Let_def
           split: sum.splits)

text \<open>
  The theorem at each of its cases: OpenAI answers; OpenAI raises and Gemini answers;
  both raise; only Gemini is available and answers, or raises; neither is available.
\<close>

theorem generate_response_auto_witness:
  "fst (generate_response both_available all_up ''q'' [] (PStr ''auto'') ()) =
     \<lparr>response = Some ''hello'', model_used = ''openai'', success = True, error = ''''\<rparr> \<and>
   fst (generate_response both_available gemini_only_up ''q'' [] (PStr ''auto'') ()) =
     \<lparr>response = Some ''ok'', model_used = ''gemini'', success = True, error = ''''\<rparr> \<and>
   fst (generate_response both_available all_down ''q'' [] (PStr ''auto'') ()) =
     \<lparr>response = Some '''', model_used = '''', success = False,
      error = ''Gemini API error: All Gemini models are unavailable''\<rparr> \<and>
   fst (generate_response only_gemini gemini_only_up ''q'' [] (PStr ''auto'') ()) =
     \<lparr>response = Some ''ok'', model_used = ''gemini'', success = True, error = ''''\<rparr> \<and>
   fst (generate_response only_gemini all_down ''q'' [] (PStr ''auto'') ()) =
     \<lparr>response = Some '''', model_used = '''', success = False,
      error = ''Gemini API error: All Gemini models are unavailable''\<rparr> \<and>
   generate_response none_available all_up ''q'' [] (PStr ''auto'') () =
     (\<lparr>response = Some '''', model_used = '''', success = False, error = ''No LLM services available''\<rparr>, [])"
proof -
  have av: "openai_available both_available" "gemini_available both_available"
    "\<not> openai_available only_gemini" "gemini_available only_gemini"
    "\<not> openai_available none_available" "\<not> gemini_available none_available"
    by (simp_all add: both_available_def only_gemini_def none_available_def)
  have 1: "fst (generate_response both_available all_up ''q'' [] (PStr ''auto'') ()) =
     \<lparr>response = Some ''hello'', model_used = ''openai'', success = True, error = ''''\<rparr>"
    using generate_response_auto [where svc = both_available and be = all_up and q = "''q''"
        and ctx = "[]" and t = "()" and r = "Some ''hello''"] av all_up_openai
    by blast
  have 2: "fst (generate_response both_available gemini_only_up ''q'' [] (PStr ''auto'') ()) =
     \<lparr>response = Some ''ok'', model_used = ''gemini'', success = True, error = ''''\<rparr>"
    using generate_response_auto [where svc = both_available and be = gemini_only_up and q = "''q''"
        and ctx = "[]" and t = "()" and e = "Exception ''OpenAI API error: rate limit''"
        and r' = "''ok''"] av gemini_only_up_openai gemini_only_up_gemini
    by blast
  have 3: "fst (generate_response both_available all_down ''q'' [] (PStr ''auto'') ()) =
     \<lparr>response = Some '''', model_used = '''', success = False,
      error = exn_str all_down (Exception ''Gemini API error: All Gemini models are unavailable'')\<rparr>"
    using generate_response_auto [where svc = both_available and be = all_down and q = "''q''"
        and ctx = "[]" and t = "()" and e = "Exception ''OpenAI API error: rate limit''"
        and e' = "Exception ''Gemini API error: All Gemini models are unavailable''"]
      av all_down_openai all_down_gemini
    by blast
  have 4: "generate_response only_gemini gemini_only_up ''q'' [] (PStr ''auto'') () =
        (case fst (generate_response_gemini gemini_only_up ''q'' [] ()) of
           Inr r \<Rightarrow> \<lparr>response = Some r, model_used = ''gemini'', success = True, error = ''''\<rparr>
         | Inl e \<Rightarrow> \<lparr>response = Some '''', model_used = '''', success = False,
                      error = exn_str gemini_only_up e\<rparr>,
         snd (generate_response_gemini gemini_only_up ''q'' [] ()))"
    using generate_response_auto [where svc = only_gemini and be = gemini_only_up and q = "''q''"
        and ctx = "[]" and t = "()"] av
    by blast
  have 5: "generate_response only_gemini all_down ''q'' [] (PStr ''auto'') () =
        (case fst (generate_response_gemini all_down ''q'' [] ()) of
           Inr r \<Rightarrow> \<lparr>response = Some r, model_used = ''gemini'', success = True, error = ''''\<rparr>
         | Inl e \<Rightarrow> \<lparr>response = Some '''', model_used = '''', success = False,
                      error = exn_str all_down e\<rparr>,
         snd (generate_response_gemini all_down ''q'' [] ()))"
    using generate_response_auto [where svc = only_gemini and be = all_down and q = "''q''"
        and ctx = "[]" and t = "()"] av
    by blast
  have 6: "generate_response none_available all_up ''q'' [] (PStr ''auto'') () =
     (\<lparr>response = Some '''', model_used = '''', success = False, error = ''No LLM services available''\<rparr>, [])"
    using generate_response_auto [where svc = none_available and be = all_up and q = "''q''"
        and ctx = "[]" and t = "()"] av
    by blast
  show ?thesis
    using 1 2 3 6 by (simp add: 4 5 gemini_only_up_gemini all_down_gemini)
qed

text \<open>
  Claim C1 as stated gives \<open>success = true\<close> with Gemini's response whenever OpenAI is
  available and raises while Gemini is available. When Gemini raises as well (here each
  of its models fails) the result is \<open>success = false\<close> with the error of Gemini.
\<close>

theorem generate_response_auto_counterexample:
  "openai_available both_available \<and> gemini_available both_available \<and>
   fst (generate_response_openai all_down ''q'' [] ''gpt-4o-mini'' ()) =
     Inl (Exception ''OpenAI API error: rate limit'') \<and>
   fst (generate_response both_available all_down ''q'' [] (PStr ''auto'') ()) =
     \<lparr>response = Some '''', model_used = '''', success = False,
      error = ''Gemini API error: All Gemini models are unavailable''\<rparr>"
  by (simp add: generate_response_def generate_response_try_def all_down_openai all_down_gemini
      both_available_def initial_response_data_def Let_def)

text \<open>
  Claim C7. When \<open>preferred_model\<close> is \<open>openai\<close> and OpenAI is unavailable, or is
  \<open>gemini\<close> and Gemini is unavailable, or is none of \<open>openai\<close>, \<open>gemini\<close> and
  \<open>auto\<close>, generation fails with the error
  \<open>Preferred model '\<dots>' not available\<close>, whatever the availability of the other
  provider, and no provider is called: the list of calls is empty.
\<close>

theorem generate_response_unavailable:
  assumes "(pm = PStr ''openai'' \<and> \<not> openai_available svc) \<or>
           (pm = PStr ''gemini'' \<and> \<not> gemini_available svc) \<or>
           pm \<notin> {PStr ''openai'', PStr ''gemini'', PStr ''auto''}"
  shows "generate_response svc be q ctx pm t =
           (\<lparr>response = Some '''', model_used = '''', success = False,
             error = ''Preferred model '' @ [CHR 0x27] @ py_str (py_repr be) pm @ [CHR 0x27] @ '' not available''\<rparr>, [])"
  using assms
  by (auto simp: generate_response_def generate_response_try_def initial_response_data_def Let_def)

text \<open>
  The theorem at \<open>preferred_model = "openai"\<close> with only Gemini available, over
  backends where Gemini would answer; at the unrecognised name \<open>claude\<close>; and at a
  null \<open>preferred_model\<close>.
\<close>

theorem generate_response_unavailable_witness:
  "generate_response only_gemini gemini_only_up ''q'' [] (PStr ''openai'') () =
     (\<lparr>response = Some '''', model_used = '''', success = False,
       error = ''Preferred model '' @ [CHR 0x27] @ ''openai'' @ [CHR 0x27] @ '' not available''\<rparr>, []) \<and>
   generate_response both_available all_up ''q'' [] (PStr ''claude'') () =
     (\<lparr>response = Some '''', model_used = '''', success = False,
       error = ''Preferred model '' @ [CHR 0x27] @ ''claude'' @ [CHR 0x27] @ '' not available''\<rparr>, []) \<and>
   generate_response both_available all_up ''q'' [] PNone () =
     (\<lparr>response = Some '''', model_used = '''', success = False,
       error = ''Preferred model '' @ [CHR 0x27] @ ''None'' @ [CHR 0x27] @ '' not available''\<rparr>, [])"
proof -
  have h: "(PStr ''openai'' = PStr ''openai'' \<and> \<not> openai_available only_gemini) \<or>
           (PStr ''openai'' = PStr ''gemini'' \<and> \<not> gemini_available only_gemini) \<or>
           PStr ''openai'' \<notin> {PStr ''openai'', PStr ''gemini'', PStr ''auto''}"
    by (simp add: only_gemini_def)
  have u: "(PStr ''claude'' = PStr ''openai'' \<and> \<not> openai_available both_available) \<or>
           (PStr ''claude'' = PStr ''gemini'' \<and> \<not> gemini_available both_available) \<or>
           PStr ''claude'' \<notin> {PStr ''openai'', PStr ''gemini'', PStr ''auto''}"
    by simp
  have n: "(PNone = PStr ''openai'' \<and> \<not> openai_available both_available) \<or>
           (PNone = PStr ''gemini'' \<and> \<not> gemini_available both_available) \<or>
           PNone \<notin> {PStr ''openai'', PStr ''gemini'', PStr ''auto''}"
    by simp
  from generate_response_unavailable [OF h, of gemini_only_up "''q''" "[]" "()"]
       generate_response_unavailable [OF u, of all_up "''q''" "[]" "()"]
       generate_response_unavailable [OF n, of all_up "''q''" "[]" "()"]
  show ?thesis by simp
qed

text \<open>
  Claim C9. For every input, the result of \<open>generate_response\<close> with
  \<open>success = false\<close> has an empty response and an error that is not empty, and a
  result with \<open>success = true\<close> has an empty error.
\<close>

theorem generate_response_consistent:
  "(\<not> success (fst (generate_response svc be q ctx pm t)) \<longrightarrow>
      response (fst (generate_response svc be q ctx pm t)) = Some [] \<and>
      error (fst (generate_response svc be q ctx pm t)) \<noteq> []) \<and>
   (success (fst (generate_response svc be q ctx pm t)) \<longrightarrow>
      error (fst (generate_response svc be q ctx pm t)) = [])"
proof (cases "generate_response_try svc be q ctx pm t")
  case (Pair r calls)
  show ?thesis
  proof (cases r)
    case (Inl e)
    then have "fst (generate_response_try svc be q ctx pm t) = Inl e" using Pair by simp
    then have "exn_str be e \<noteq> []" by (intro exn_str_raised generate_response_try_raises)
    then show ?thesis using Pair Inl
      by (simp add: generate_response_def initial_response_data_def)
  next
    case (Inr rd)
    then have "fst (generate_response_try svc be q ctx pm t) = Inr rd" using Pair by simp
    then have "success rd \<and> error rd = []" by (rule generate_response_try_returns)
    then show ?thesis using Pair Inr by (simp add: generate_response_def)
  qed
qed

text \<open>
  The theorem at a failed generation (every provider down) and at a successful one
  (Gemini answers after OpenAI has raised).
\<close>

theorem generate_response_consistent_witness:
  "response (fst (generate_response both_available all_down ''q'' [] (PStr ''auto'') ())) = Some [] \<and>
   error (fst (generate_response both_available all_down ''q'' [] (PStr ''auto'') ())) \<noteq> [] \<and>
   error (fst (generate_response both_available gemini_only_up ''q'' [] (PStr ''auto'') ())) = []"
proof -
  have f: "\<not> success (fst (generate_response both_available all_down ''q'' [] (PStr ''auto'') ()))"
    by (simp add: generate_response_def generate_response_try_def all_down_openai all_down_gemini
        both_available_def initial_response_data_def Let_def)
  have s: "success (fst (generate_response both_available gemini_only_up ''q'' [] (PStr ''auto'') ()))"
    by (simp add: generate_response_def generate_response_try_def gemini_only_up_openai
        gemini_only_up_gemini both_available_def initial_response_data_def Let_def)
  from generate_response_consistent [of both_available all_down "''q''" "[]" "PStr ''auto''" "()"] f
       generate_response_consistent [of both_available gemini_only_up "''q''" "[]" "PStr ''auto''" "()"] s
  show ?thesis by blast
qed

subsection \<open>Web search\<close>

lemma format_results_length:
  "format_results repr k1 k2 k3 items = Inr rs \<Longrightarrow> length rs = length items"
  by (induction items arbitrary: rs) (auto split: sum.splits)

lemma formatted_entryI: "formatted_entry (a @ '': '' @ b @ '' ('' @ c @ '')'')"
  unfolding formatted_entry_def by blast

lemma format_results_formatted:
  "format_results repr k1 k2 k3 items = Inr rs \<Longrightarrow> r \<in> set rs \<Longrightarrow> formatted_entry r"
proof (induction items arbitrary: rs)
  case Nil
  then show ?case by simp
next
  case (Cons item items)
  from Cons.prems(1) obtain a b c rest where
    rs: "rs = (a @ '': '' @ b @ '' ('' @ c @ '')'') # rest"
    and rest: "format_results repr k1 k2 k3 items = Inr rest"
    by (auto split: sum.splits)
  show ?case
  proof (cases "r \<in> set rest")
    case True
    then show ?thesis using Cons.IH [OF rest] by simp
  next
    case False
    then have "r = a @ '': '' @ b @ '' ('' @ c @ '')''" using Cons.prems(2) rs by simp
    then show ?thesis by (simp only: formatted_entryI)
  qed
qed

lemma py_slice_length: "0 \<le> n \<Longrightarrow> length (py_slice xs 0 n) \<le> nat n"
  by (simp add: py_slice_def py_clamp_index_def Let_def)

lemma slice_iter_length:
  assumes "py_slice_upto v n = Inr sliced" "py_iter sliced = Inr items" "0 \<le> n"
  shows "length items \<le> nat n"
proof (cases v)
  case (PList xs)
  then show ?thesis using assms py_slice_length [of n xs] by auto
next
  case (PStr s)
  then show ?thesis using assms py_slice_length [of n s] by auto
qed (use assms in auto)

lemma serpapi_search_results:
  assumes "serpapi_search be q n = Inr rs"
  shows "(0 \<le> n \<longrightarrow> length rs \<le> nat n) \<and> (\<forall>r \<in> set rs. formatted_entry r)"
proof -
  from assms obtain organic sliced items where
    s: "py_slice_upto organic n = Inr sliced" and i: "py_iter sliced = Inr items"
    and f: "format_results (py_repr be) ''title'' ''snippet'' ''link'' items = Inr rs"
    by (auto simp: serpapi_search_def split: if_splits sum.splits)
  show ?thesis
    using slice_iter_length [OF s i] format_results_length [OF f] format_results_formatted [OF f]
    by auto
qed

lemma brave_search_results:
  assumes "brave_search be q n = Inr rs"
  shows "(0 \<le> n \<longrightarrow> length rs \<le> nat n) \<and> (\<forall>r \<in> set rs. formatted_entry r)"
proof -
  from assms obtain found sliced items where
    s: "py_slice_upto found n = Inr sliced" and i: "py_iter sliced = Inr items"
    and f: "format_results (py_repr be) ''title'' ''description'' ''url'' items = Inr rs"
    by (auto simp: brave_search_def split: if_splits sum.splits)
  show ?thesis
    using slice_iter_length [OF s i] format_results_length [OF f] format_results_formatted [OF f]
    by auto
qed

text \<open>
  Claim C6. \<open>web_search\<close> never raises: it returns the results of SerpAPI when that
  search returns; on any exception of it (missing credential, failed request,
  malformed response) the results of Brave; and the empty list when Brave raises as
  well. For \<open>n \<ge> 0\<close> the result has at most \<open>n\<close> entries, in the order of the
  provider, each of the form \<^verbatim>\<open>title: snippet (url)\<close>.
\<close>

theorem web_search_never_raises:
  "\<exists>results. web_search be q n = Inr results \<and>
     results = (case serpapi_search be q n of
                  Inr found \<Rightarrow> found
                | Inl e \<Rightarrow> (case brave_search be q n of Inr found \<Rightarrow> found | Inl e2 \<Rightarrow> [])) \<and>
     (0 \<le> n \<longrightarrow> length results \<le> nat n) \<and>
     (\<forall>r \<in> set results. formatted_entry r)"
proof (cases "serpapi_search be q n")
  case (Inr found)
  then show ?thesis using serpapi_search_results [OF Inr] by (simp add: web_search_def)
next
  case (Inl e)
  show ?thesis
  proof (cases "brave_search be q n")
    case (Inr found)
    then show ?thesis using Inl brave_search_results [OF Inr] by (simp add: web_search_def)
  next
    case Inl2: (Inl e2)
    then show ?thesis using Inl by (simp add: web_search_def)
  qed
qed

lemma brave_up_serpapi: "serpapi_search brave_up ''q'' 3 = Inl (ExternalError ''HTTP 500'')"
  by (simp add: serpapi_search_def brave_up_def test_backends_def key_missing_def)

lemma brave_up_brave: "brave_search brave_up ''q'' 3 = Inr [''T: D (U)'']"
  by (simp add: brave_search_def brave_up_def test_backends_def key_missing_def brave_answer_def
      py_slice_def py_clamp_index_def)

lemma all_down_serpapi: "serpapi_search all_down ''q'' 3 = Inl (ExternalError ''HTTP 500'')"
  by (simp add: serpapi_search_def all_down_def test_backends_def key_missing_def)

lemma all_down_brave: "brave_search all_down ''q'' 3 = Inl (ExternalError ''HTTP 500'')"
  by (simp add: brave_search_def all_down_def test_backends_def key_missing_def)

text \<open>
  The theorem at \<open>n = 3\<close>: over backends where SerpAPI fails and Brave returns one
  result, and over backends where both fail.
\<close>

theorem web_search_never_raises_witness:
  "web_search brave_up ''q'' 3 = Inr [''T: D (U)''] \<and> length [''T: D (U)''] \<le> nat 3 \<and>
   formatted_entry ''T: D (U)'' \<and>
   web_search all_down ''q'' 3 = Inr []"
proof -
  have n: "(0::int) \<le> 3" by simp
  from web_search_never_raises [of brave_up "''q''" 3] n
  have a: "web_search brave_up ''q'' 3 = Inr [''T: D (U)''] \<and> length [''T: D (U)''] \<le> nat 3 \<and>
           formatted_entry ''T: D (U)''"
    by (auto simp: brave_up_serpapi brave_up_brave)
  from web_search_never_raises [of all_down "''q''" 3]
  have b: "web_search all_down ''q'' 3 = Inr []"
    by (auto simp: all_down_serpapi all_down_brave)
  show ?thesis using a b by blast
qed

subsection \<open>The workflow run and its execution log\<close>

lemma log_execution_returns: "fst (log_execution be row rows) = Inr ()"
  by (simp add: log_execution_def split: prod.splits option.splits)

lemma log_execution_table: "snd (log_execution be row rows) = snd (db_insert be row rows)"
  by (simp add: log_execution_def split: prod.splits option.splits)

text \<open>The three ways a run ends.\<close>

lemma run_workflow_returned:
  assumes "workflow_try svc be request = (Inr (result, full_context), calls)"
    and "response result = Some txt"
  shows "run_workflow svc be request rows =
           \<lparr>outcome = Inr \<lparr>run_response = txt,
                           run_model_used = model_used result,
                           context_used = (if full_context \<noteq> [] then Some full_context else None),
                           run_success = success result,
                           run_error = Some (error result)\<rparr>,
            log_calls = [\<lparr>log_workflow_id = None, log_query = query request,
                          log_response = Some txt, log_model_used = model_used result,
                          log_success = success result, log_error = Some (error result),
                          log_execution_time = elapsed_time be 0\<rparr>],
            execution_logs = snd (db_insert be
                         \<lparr>log_workflow_id = None, log_query = query request,
                          log_response = Some txt, log_model_used = model_used result,
                          log_success = success result, log_error = Some (error result),
                          log_execution_time = elapsed_time be 0\<rparr> rows),
            llm_calls = calls\<rparr>"
  using assms
  by (simp add: run_workflow_def build_response_def Let_def log_execution_returns log_execution_table)

lemma run_workflow_invalid:
  assumes "workflow_try svc be request = (Inr (result, full_context), calls)"
    and "response result = None"
  shows "run_workflow svc be request rows =
           \<lparr>outcome = Inl (HTTPException 500
                             (''Workflow execution error: '' @ exn_str be (ValidationError ''response''))),
            log_calls = [\<lparr>log_workflow_id = None, log_query = query request,
                          log_response = None, log_model_used = model_used result,
                          log_success = success result, log_error = Some (error result),
                          log_execution_time = elapsed_time be 0\<rparr>,
                         \<lparr>log_workflow_id = None, log_query = query request,
                          log_response = Some '''', log_model_used = ''unknown'',
                          log_success = False,
                          log_error = Some (exn_str be (ValidationError ''response'')),
                          log_execution_time = elapsed_time be 1\<rparr>],
            execution_logs = snd (db_insert be
                         \<lparr>log_workflow_id = None, log_query = query request,
                          log_response = Some '''', log_model_used = ''unknown'',
                          log_success = False,
                          log_error = Some (exn_str be (ValidationError ''response'')),
                          log_execution_time = elapsed_time be 1\<rparr>
                         (snd (db_insert be
                           \<lparr>log_workflow_id = None, log_query = query request,
                            log_response = None, log_model_used = model_used result,
                            log_success = success result, log_error = Some (error result),
                            log_execution_time = elapsed_time be 0\<rparr> rows))),
            llm_calls = calls\<rparr>"
  using assms
  by (simp add: run_workflow_def build_response_def failed_execution_def Let_def
      log_execution_returns log_execution_table)

lemma run_workflow_raised:
  assumes "workflow_try svc be request = (Inl e, calls)"
  shows "run_workflow svc be request rows =
           \<lparr>outcome = Inl (HTTPException 500 (''Workflow execution error: '' @ exn_str be e)),
            log_calls = [\<lparr>log_workflow_id = None, log_query = query request, log_response = Some '''',
                          log_model_used = ''unknown'', log_success = False,
                          log_error = Some (exn_str be e), log_execution_time = elapsed_time be 0\<rparr>],
            execution_logs = snd (db_insert be
                         \<lparr>log_workflow_id = None, log_query = query request, log_response = Some '''',
                          log_model_used = ''unknown'', log_success = False,
                          log_error = Some (exn_str be e), log_execution_time = elapsed_time be 0\<rparr> rows),
            llm_calls = calls\<rparr>"
  using assms
  by (simp add: run_workflow_def failed_execution_def Let_def log_execution_returns log_execution_table)

lemma neither_available_fails:
  assumes "\<not> openai_available svc" "\<not> gemini_available svc"
  shows "\<not> success (fst (generate_response svc be q ctx pm t))"
  using assms
  by (auto simp: generate_response_def generate_response_try_def initial_response_data_def Let_def)

text \<open>
  A failed generation leaves the response and \<open>model_used\<close> as initialised: empty.
\<close>

lemma failed_generation_fields:
  assumes "\<not> success (fst (generate_response svc be q ctx pm t))"
  shows "response (fst (generate_response svc be q ctx pm t)) = Some [] \<and>
         model_used (fst (generate_response svc be q ctx pm t)) = []"
proof (cases "generate_response_try svc be q ctx pm t")
  case (Pair r calls)
  show ?thesis
  proof (cases r)
    case (Inl e)
    then show ?thesis using Pair
      by (simp add: generate_response_def initial_response_data_def)
  next
    case (Inr rd)
    then have "fst (generate_response_try svc be q ctx pm t) = Inr rd" using Pair by simp
    then have "success rd" by (rule generate_response_try_returns [THEN conjunct1])
    then show ?thesis using assms Pair Inr by (simp add: generate_response_def)
  qed
qed

lemma workflow_try_generated:
  assumes "workflow_try svc be request = (Inr (result, full_context), calls)"
  shows "\<exists>model. result = fst (generate_response svc be (query request) full_context model (temperature request))"
  using assms
  by (auto simp: workflow_try_def Let_def split: sum.splits prod.splits)

text \<open>
  Claim C3, as the code has it. Every workflow run whose generation result holds a
  text response calls \<open>log_execution\<close> exactly once, whether generation succeeds or
  fails. When the \<^verbatim>\<open>try\<close> block completes, the run returns a response and the entry
  carries the response, \<open>model_used\<close>, \<open>success\<close> and \<open>error\<close> of the generation
  result: for a generation that failed inside the LLM service (which returns its
  failure and does not raise) an empty response, an empty \<open>model_used\<close>,
  \<open>success = false\<close> and the error. When an exception leaves the \<^verbatim>\<open>try\<close> block
  before generation (a malformed workflow definition), the run ends with status 500 and
  the entry carries an empty response, \<open>model_used = "unknown"\<close>, \<open>success = false\<close> and
  the message of the caught exception. \<open>workflow_id\<close> is null in every entry. When
  neither LLM provider is available exactly one entry is logged, with
  \<open>success = false\<close>. Over a database that inserts, the table grows by the entries
  logged.
\<close>

theorem run_workflow_logs_once:
  "(\<forall>e. fst (workflow_try svc be request) = Inl e \<longrightarrow>
      outcome (run_workflow svc be request rows) =
        Inl (HTTPException 500 (''Workflow execution error: '' @ exn_str be e)) \<and>
      log_calls (run_workflow svc be request rows) =
        [\<lparr>log_workflow_id = None, log_query = query request, log_response = Some '''',
          log_model_used = ''unknown'', log_success = False,
          log_error = Some (exn_str be e), log_execution_time = elapsed_time be 0\<rparr>]) \<and>
   (\<forall>result full_context txt.
      fst (workflow_try svc be request) = Inr (result, full_context) \<and>
      response result = Some txt \<longrightarrow>
        outcome (run_workflow svc be request rows) =
          Inr \<lparr>run_response = txt, run_model_used = model_used result,
               context_used = (if full_context \<noteq> [] then Some full_context else None),
               run_success = success result, run_error = Some (error result)\<rparr> \<and>
        log_calls (run_workflow svc be request rows) =
          [\<lparr>log_workflow_id = None, log_query = query request,
            log_response = Some txt, log_model_used = model_used result,
            log_success = success result, log_error = Some (error result),
            log_execution_time = elapsed_time be 0\<rparr>] \<and>
        (\<not> success result \<longrightarrow> txt = [] \<and> model_used result = [])) \<and>
   (\<forall>row \<in> set (log_calls (run_workflow svc be request rows)). log_workflow_id row = None) \<and>
   (\<not> openai_available svc \<and> \<not> gemini_available svc \<longrightarrow>
      (\<exists>row. log_calls (run_workflow svc be request rows) = [row] \<and> \<not> log_success row)) \<and>
   (db_insert be = (\<lambda>row rows. (None, rows @ [row])) \<longrightarrow>
      execution_logs (run_workflow svc be request rows) =
        rows @ log_calls (run_workflow svc be request rows))"
proof (cases "workflow_try svc be request")
  case (Pair r calls)
  show ?thesis
  proof (cases r)
    case (Inl e)
    have w: "workflow_try svc be request = (Inl e, calls)" using Pair Inl by simp
    show ?thesis
      unfolding run_workflow_raised [OF w] using w by simp
  next
    case (Inr p)
    obtain result full_context where p: "p = (result, full_context)" by (cases p)
    have w: "workflow_try svc be request = (Inr (result, full_context), calls)"
      using Pair Inr p by simp
    from workflow_try_generated [OF w] obtain model where
      g: "result = fst (generate_response svc be (query request) full_context model (temperature request))"
      by blast
    have n: "\<not> openai_available svc \<and> \<not> gemini_available svc \<longrightarrow> \<not> success result"
      unfolding g by (simp add: neither_available_fails)
    have f: "\<not> success result \<longrightarrow> response result = Some [] \<and> model_used result = []"
      unfolding g by (simp add: failed_generation_fields)
    show ?thesis
    proof (cases "response result")
      case None
      then have s: "success result" using f by auto
      show ?thesis
        unfolding run_workflow_invalid [OF w None] using w None n s by simp
    next
      case (Some answer)
      show ?thesis
        unfolding run_workflow_returned [OF w Some] using w Some n f by auto
    qed
  qed
qed

lemma none_available_plain:
  "fst (workflow_try none_available all_down plain_request) =
     Inr (\<lparr>response = Some [], model_used = [], success = False,
           error = ''No LLM services available''\<rparr>, [])"
  by (simp add: workflow_try_def llm_engine_config_def plain_request_def pyval_of_optional_def
      knowledge_base_context_def knowledge_base_try_def search_similar_chunks_def
      web_search_context_def combine_contexts_def generate_response_def generate_response_try_def
      none_available_def initial_response_data_def all_down_def test_backends_def Let_def)

lemma node_without_id_raises:
  "fst (workflow_try both_available gemini_only_up node_without_id) = Inl (KeyError (PStr ''id''))"
  by (simp add: workflow_try_def llm_engine_config_def node_without_id_def pyval_of_optional_def Let_def)

lemma openai_without_content_try:
  "fst (workflow_try both_available openai_without_content openai_request) =
     Inr (\<lparr>response = None, model_used = ''openai'', success = True, error = []\<rparr>, [])"
  by (simp add: workflow_try_def llm_engine_config_def openai_request_def pyval_of_optional_def
      knowledge_base_context_def web_search_context_def combine_contexts_def
      generate_response_def generate_response_try_def generate_response_openai_def
      both_available_def initial_response_data_def openai_without_content_def test_backends_def
      Let_def)

text \<open>
  The theorem at a run with no provider available over a database that inserts (the
  generation fails and the run returns), and at a run where an exception leaves the
  \<^verbatim>\<open>try\<close> block (the LLM engine node has no \<^verbatim>\<open>id\<close>).
\<close>

theorem run_workflow_logs_once_witness:
  "log_calls (run_workflow none_available all_down plain_request []) =
     [\<lparr>log_workflow_id = None, log_query = ''q'', log_response = Some [], log_model_used = [],
       log_success = False, log_error = Some ''No LLM services available'',
       log_execution_time = ()\<rparr>] \<and>
   execution_logs (run_workflow none_available all_down plain_request []) =
     log_calls (run_workflow none_available all_down plain_request []) \<and>
   log_calls (run_workflow both_available gemini_only_up node_without_id []) =
     [\<lparr>log_workflow_id = None, log_query = ''q'', log_response = Some [], log_model_used = ''unknown'',
       log_success = False, log_error = Some ''<builtin exception>'',
       log_execution_time = ()\<rparr>]"
proof -
  have r: "response \<lparr>response = Some [], model_used = [], success = False,
                     error = ''No LLM services available''\<rparr> = Some []"
    by simp
  have d: "db_insert all_down = (\<lambda>row rows. (None, rows @ [row]))"
    by (simp add: all_down_def test_backends_def)
  have ql: "query plain_request = ''q''" "elapsed_time all_down 0 = ()"
    by (simp_all add: plain_request_def)
  from run_workflow_logs_once [of none_available all_down plain_request "[]"]
       none_available_plain r d ql
  have a: "log_calls (run_workflow none_available all_down plain_request []) =
     [\<lparr>log_workflow_id = None, log_query = ''q'', log_response = Some [], log_model_used = [],
       log_success = False, log_error = Some ''No LLM services available'',
       log_execution_time = ()\<rparr>] \<and>
   execution_logs (run_workflow none_available all_down plain_request []) =
     log_calls (run_workflow none_available all_down plain_request [])"
    by auto
  have m: "exn_str gemini_only_up (KeyError (PStr ''id'')) = ''<builtin exception>''"
    by (simp add: gemini_only_up_def test_backends_def)
  have qn: "query node_without_id = ''q''" "elapsed_time gemini_only_up 0 = ()"
    by (simp_all add: node_without_id_def)
  from run_workflow_logs_once [of both_available gemini_only_up node_without_id "[]"]
       node_without_id_raises m qn
  have b: "log_calls (run_workflow both_available gemini_only_up node_without_id []) =
     [\<lparr>log_workflow_id = None, log_query = ''q'', log_response = Some [], log_model_used = ''unknown'',
       log_success = False, log_error = Some ''<builtin exception>'',
       log_execution_time = ()\<rparr>]"
    by auto
  show ?thesis using a b by blast
qed

text \<open>
  Claim C3 as stated has every run emit exactly one entry, and a run whose generation
  fails carry \<open>model_used = "unknown"\<close>. When OpenAI answers with a message without
  content, the generation result (\<open>success = true\<close>, response \<^verbatim>\<open>None\<close>) is logged, the
  response model then refuses the \<^verbatim>\<open>None\<close>, and the handler logs a second entry
  before the run ends with status 500: two entries for one run. And when neither
  provider is available the failed generation is logged through the returning path,
  with the empty \<open>model_used\<close> of the generation result.
\<close>

theorem run_workflow_logs_once_counterexample:
  "log_calls (run_workflow both_available openai_without_content openai_request []) =
     [\<lparr>log_workflow_id = None, log_query = ''q'', log_response = None,
       log_model_used = ''openai'', log_success = True, log_error = Some [],
       log_execution_time = ()\<rparr>,
      \<lparr>log_workflow_id = None, log_query = ''q'', log_response = Some [],
       log_model_used = ''unknown'', log_success = False,
       log_error = Some ''<builtin exception>'', log_execution_time = ()\<rparr>] \<and>
   log_calls (run_workflow none_available all_down plain_request []) =
     [\<lparr>log_workflow_id = None, log_query = ''q'', log_response = Some [], log_model_used = [],
       log_success = False, log_error = Some ''No LLM services available'',
       log_execution_time = ()\<rparr>]"
proof -
  have a: "log_calls (run_workflow both_available openai_without_content openai_request []) =
     [\<lparr>log_workflow_id = None, log_query = ''q'', log_response = None,
       log_model_used = ''openai'', log_success = True, log_error = Some [],
       log_execution_time = ()\<rparr>,
      \<lparr>log_workflow_id = None, log_query = ''q'', log_response = Some [],
       log_model_used = ''unknown'', log_success = False,
       log_error = Some ''<builtin exception>'', log_execution_time = ()\<rparr>]"
    using openai_without_content_try
    by (cases "workflow_try both_available openai_without_content openai_request")
       (simp add: run_workflow_def build_response_def failed_execution_def log_execution_returns
          Let_def openai_request_def openai_without_content_def test_backends_def)
  have b: "log_calls (run_workflow none_available all_down plain_request []) =
     [\<lparr>log_workflow_id = None, log_query = ''q'', log_response = Some [], log_model_used = [],
       log_success = False, log_error = Some ''No LLM services available'',
       log_execution_time = ()\<rparr>]"
    using none_available_plain
    by (cases "workflow_try none_available all_down plain_request")
       (simp add: run_workflow_def build_response_def log_execution_returns Let_def
          plain_request_def all_down_def test_backends_def)
  show ?thesis using a b by blast
qed

lemma exn_str_db: "exn_str (be\<lparr>db_insert := f\<rparr>) e = exn_str be e"
  by (cases e) simp_all

lemma gemini_try_models_db:
  "gemini_try_models (be\<lparr>db_insert := f\<rparr>) prompt t ms = gemini_try_models be prompt t ms"
  by (induction ms) (simp_all split: sum.splits)

lemma generate_response_db:
  "generate_response svc (be\<lparr>db_insert := f\<rparr>) q ctx pm t = generate_response svc be q ctx pm t"
  by (simp add: generate_response_def generate_response_try_def generate_response_openai_def
      generate_response_gemini_def gemini_try_models_db exn_str_db Let_def
      cong: if_cong sum.case_cong)

lemma knowledge_base_context_db:
  "knowledge_base_context (be\<lparr>db_insert := f\<rparr>) request = knowledge_base_context be request"
  by (simp add: knowledge_base_context_def knowledge_base_try_def search_similar_chunks_def
      cong: if_cong sum.case_cong)

lemma web_search_db: "web_search (be\<lparr>db_insert := f\<rparr>) q n = web_search be q n"
  by (simp add: web_search_def serpapi_search_def brave_search_def cong: if_cong sum.case_cong)

lemma workflow_try_db:
  "workflow_try svc (be\<lparr>db_insert := f\<rparr>) request = workflow_try svc be request"
  by (simp add: workflow_try_def generate_response_db knowledge_base_context_db
      web_search_context_def web_search_db cong: if_cong sum.case_cong)

text \<open>
  Claim C10. \<open>log_execution\<close> returns normally whatever the insert does. The outcome
  of a workflow run is fixed by the \<^verbatim>\<open>try\<close> block alone (a response, or the
  \<^verbatim>\<open>HTTPException\<close> of the handler for an exception of the block or of the
  response model), and it is the same under any other behaviour \<open>f\<close> of the database.
\<close>

theorem log_execution_swallows:
  "fst (log_execution be row rows) = Inr () \<and>
   outcome (run_workflow svc be request rows) =
     (case fst (workflow_try svc be request) of
        Inr (result, full_context) \<Rightarrow>
          (case response result of
             Some txt \<Rightarrow>
               Inr \<lparr>run_response = txt, run_model_used = model_used result,
                    context_used = (if full_context \<noteq> [] then Some full_context else None),
                    run_success = success result, run_error = Some (error result)\<rparr>
           | None \<Rightarrow>
               Inl (HTTPException 500
                      (''Workflow execution error: '' @ exn_str be (ValidationError ''response''))))
      | Inl e \<Rightarrow> Inl (HTTPException 500 (''Workflow execution error: '' @ exn_str be e))) \<and>
   outcome (run_workflow svc (be\<lparr>db_insert := f\<rparr>) request rows) =
     outcome (run_workflow svc be request rows)"
proof -
  have o: "outcome (run_workflow svc b request rows) =
     (case fst (workflow_try svc b request) of
        Inr (result, full_context) \<Rightarrow>
          (case response result of
             Some txt \<Rightarrow>
               Inr \<lparr>run_response = txt, run_model_used = model_used result,
                    context_used = (if full_context \<noteq> [] then Some full_context else None),
                    run_success = success result, run_error = Some (error result)\<rparr>
           | None \<Rightarrow>
               Inl (HTTPException 500
                      (''Workflow execution error: '' @ exn_str b (ValidationError ''response''))))
      | Inl e \<Rightarrow> Inl (HTTPException 500 (''Workflow execution error: '' @ exn_str b e)))"
    for b
  proof (cases "workflow_try svc b request")
    case (Pair r calls)
    show ?thesis
    proof (cases r)
      case (Inl e)
      then have "workflow_try svc b request = (Inl e, calls)" using Pair by simp
      then show ?thesis by (simp add: run_workflow_raised)
    next
      case (Inr p)
      obtain result full_context where "p = (result, full_context)" by (cases p)
      then have w: "workflow_try svc b request = (Inr (result, full_context), calls)"
        using Pair Inr by simp
      show ?thesis
      proof (cases "response result")
        case None
        then show ?thesis using w by (simp add: run_workflow_invalid [OF w None])
      next
        case (Some answer)
        then show ?thesis using w by (simp add: run_workflow_returned [OF w Some])
      qed
    qed
  qed
  show ?thesis
    by (simp only: o [of be] o [of "be\<lparr>db_insert := f\<rparr>"] workflow_try_db exn_str_db
        log_execution_returns simp_thms)
qed

lemma database_down_plain:
  "fst (workflow_try both_available database_down plain_request) =
     Inr (\<lparr>response = Some ''ok'', model_used = ''gemini'', success = True, error = []\<rparr>, [])"
  by (simp add: workflow_try_def llm_engine_config_def plain_request_def pyval_of_optional_def
      knowledge_base_context_def knowledge_base_try_def search_similar_chunks_def
      web_search_context_def combine_contexts_def generate_response_def generate_response_try_def
      generate_response_openai_def generate_response_gemini_def gemini_models_def
      both_available_def initial_response_data_def database_down_def gemini_only_up_def
      test_backends_def Let_def)

text \<open>
  The theorem over a database that refuses the insert: the run still returns Gemini's
  response.
\<close>

theorem log_execution_swallows_witness:
  "db_insert database_down \<lparr>log_workflow_id = None, log_query = ''q'', log_response = Some ''ok'',
       log_model_used = ''gemini'', log_success = True, log_error = Some [],
       log_execution_time = ()\<rparr> [] = (Some ''connection refused'', []) \<and>
   outcome (run_workflow both_available database_down plain_request []) =
     Inr \<lparr>run_response = ''ok'', run_model_used = ''gemini'', context_used = None,
          run_success = True, run_error = Some []\<rparr>"
proof -
  have d: "db_insert database_down \<lparr>log_workflow_id = None, log_query = ''q'', log_response = Some ''ok'',
       log_model_used = ''gemini'', log_success = True, log_error = Some [],
       log_execution_time = ()\<rparr> [] = (Some ''connection refused'', [])"
    by (simp add: database_down_def)
  from log_execution_swallows [of database_down _ "[]" both_available plain_request] database_down_plain
  have "outcome (run_workflow both_available database_down plain_request []) =
     Inr \<lparr>run_response = ''ok'', run_model_used = ''gemini'', context_used = None,
          run_success = True, run_error = Some []\<rparr>"
    by simp
  then show ?thesis using d by simp
qed

subsection \<open>Context assembly\<close>

lemma context_chunks_from_strings:
  "context_chunks_from repr i (map PStr chunks) =
     map (\<lambda>(j, c). ''Context '' @ str_nat (j + 1) @ '': '' @ c)
         (filter (\<lambda>(j, c). c \<noteq> []) (enumerate i chunks))"
  by (induction chunks arbitrary: i) simp_all

lemma web_result_lines_enumerate:
  "web_result_lines i web =
     map (\<lambda>(j, r). ''Web Result '' @ str_nat (j + 1) @ '': '' @ r) (enumerate i web)"
  by (induction web arbitrary: i) simp_all

lemma filter_enumerate_nonempty:
  "\<forall>c \<in> set chunks. c \<noteq> [] \<Longrightarrow> filter (\<lambda>(j, c). c \<noteq> []) (enumerate i chunks) = enumerate i chunks"
  by (induction chunks arbitrary: i) simp_all

lemma knowledge_base_try_documents:
  assumes "chroma_query be q n = Inr (PDict results)"
    and "map_of results ''documents'' = Some (PList (PList (map PStr chunks) # others))"
  shows "knowledge_base_try be q n =
           Inr (join blank_line
                  (map (\<lambda>(j, c). ''Context '' @ str_nat (j + 1) @ '': '' @ c)
                       (filter (\<lambda>(j, c). c \<noteq> []) (enumerate 0 chunks))))"
proof -
  have ne: "results \<noteq> []" using assms(2) by auto
  show ?thesis
    using assms ne
    by (simp add: knowledge_base_try_def search_similar_chunks_def context_chunks_from_strings Let_def)
qed

text \<open>
  Claim C8, as the code has it. Of the retrieved knowledge-base chunks, each one that
  is not empty is formatted as \<^verbatim>\<open>Context {n}: {text}\<close>, \<open>n\<close> being its 1-based
  position among all retrieved chunks, and the entries are joined by blank lines; when
  no retrieved chunk is empty this is every chunk, numbered 1, 2, \<dots> Each web result
  is formatted as \<^verbatim>\<open>Web Result {n}: {snippet}\<close>, joined by blank lines. The two
  blocks are concatenated with a blank line between them when both are non-empty; either
  alone is used verbatim, and both empty give the empty context. For the chunks
  \<open>foo\<close>, \<open>bar\<close> and the web result \<open>baz\<close> the combined context is
  \<^verbatim>\<open>Context 1: foo\<close>, \<^verbatim>\<open>Context 2: bar\<close> and \<^verbatim>\<open>Web Result 1: baz\<close>, separated
  by blank lines.
\<close>

theorem context_assembly:
  "(chroma_query be q n = Inr (PDict results) \<and>
    map_of results ''documents'' = Some (PList (PList (map PStr chunks) # others)) \<longrightarrow>
      knowledge_base_try be q n =
        Inr (join blank_line
               (map (\<lambda>(j, c). ''Context '' @ str_nat (j + 1) @ '': '' @ c)
                    (filter (\<lambda>(j, c). c \<noteq> []) (enumerate 0 chunks)))) \<and>
      ((\<forall>c \<in> set chunks. c \<noteq> []) \<longrightarrow>
         knowledge_base_try be q n = Inr (spec_context_block ''Context'' chunks))) \<and>
   (truthy use_web_search \<and> web_search be q 3 = Inr web \<longrightarrow>
      web_search_context be q use_web_search = spec_context_block ''Web Result'' web) \<and>
   (context \<noteq> [] \<and> web_context \<noteq> [] \<longrightarrow>
      combine_contexts context web_context = context @ blank_line @ web_context) \<and>
   combine_contexts context [] = context \<and>
   combine_contexts [] web_context = web_context \<and>
   combine_contexts (join blank_line (context_chunks_from (py_repr be) 0 [PStr ''foo'', PStr ''bar'']))
                    (join blank_line (web_result_lines 0 [''baz''])) =
     ''Context 1: foo'' @ blank_line @ ''Context 2: bar'' @ blank_line @ ''Web Result 1: baz''"
proof (intro conjI impI)
  assume a: "chroma_query be q n = Inr (PDict results) \<and>
    map_of results ''documents'' = Some (PList (PList (map PStr chunks) # others))"
  then show k: "knowledge_base_try be q n =
        Inr (join blank_line
               (map (\<lambda>(j, c). ''Context '' @ str_nat (j + 1) @ '': '' @ c)
                    (filter (\<lambda>(j, c). c \<noteq> []) (enumerate 0 chunks))))"
    using knowledge_base_try_documents by blast
  assume "\<forall>c \<in> set chunks. c \<noteq> []"
  then show "knowledge_base_try be q n = Inr (spec_context_block ''Context'' chunks)"
    using k by (simp add: filter_enumerate_nonempty spec_context_block_def)
next
  assume "truthy use_web_search \<and> web_search be q 3 = Inr web"
  then show "web_search_context be q use_web_search = spec_context_block ''Web Result'' web"
    by (cases web) (simp_all add: web_search_context_def web_result_lines_enumerate spec_context_block_def)
next
  assume "context \<noteq> [] \<and> web_context \<noteq> []"
  then show "combine_contexts context web_context = context @ blank_line @ web_context"
    by (simp add: combine_contexts_def)
next
  show "combine_contexts context [] = context" by (simp add: combine_contexts_def)
  show "combine_contexts [] web_context = web_context" by (simp add: combine_contexts_def)
  show "combine_contexts (join blank_line (context_chunks_from (py_repr be) 0 [PStr ''foo'', PStr ''bar'']))
                    (join blank_line (web_result_lines 0 [''baz''])) =
     ''Context 1: foo'' @ blank_line @ ''Context 2: bar'' @ blank_line @ ''Web Result 1: baz''"
    by (simp add: combine_contexts_def str_nat.simps blank_line_def)
qed

text \<open>
  Claim C8 as stated formats each retrieved chunk. The loop skips a chunk that is empty
  (\<^verbatim>\<open>if doc:\<close>) and still counts it: for the retrieved chunks \<open>""\<close> and \<open>foo\<close> the
  context is \<^verbatim>\<open>Context 2: foo\<close>, and not the two entries that formatting each chunk
  gives.
\<close>

theorem context_assembly_counterexample:
  "knowledge_base_try index_with_empty_chunk ''q'' (Some 3) = Inr ''Context 2: foo'' \<and>
   spec_context_block ''Context'' ['''', ''foo''] = ''Context 1: '' @ blank_line @ ''Context 2: foo'' \<and>
   ''Context 2: foo'' \<noteq> ''Context 1: '' @ blank_line @ ''Context 2: foo''"
  by (simp add: knowledge_base_try_def search_similar_chunks_def index_with_empty_chunk_def
      test_backends_def spec_context_block_def str_nat.simps blank_line_def Let_def)

lemma index_foo_bar_web: "web_search index_foo_bar ''q'' 3 = Inr [''T: D (U)'']"
  by (simp add: web_search_def serpapi_search_def brave_search_def index_foo_bar_def
      test_backends_def key_missing_def brave_answer_def py_slice_def py_clamp_index_def)

text \<open>
  The theorem over backends whose index returns \<open>foo\<close> and \<open>bar\<close> and whose web
  search returns one result.
\<close>

theorem context_assembly_witness:
  "knowledge_base_try index_foo_bar ''q'' (Some 3) =
     Inr (''Context 1: foo'' @ blank_line @ ''Context 2: bar'') \<and>
   web_search_context index_foo_bar ''q'' (PBool True) = ''Web Result 1: T: D (U)'' \<and>
   combine_contexts (''Context 1: foo'' @ blank_line @ ''Context 2: bar'') ''Web Result 1: T: D (U)'' =
     ''Context 1: foo'' @ blank_line @ ''Context 2: bar'' @ blank_line @ ''Web Result 1: T: D (U)''"
proof -
  have c: "chroma_query index_foo_bar ''q'' (Some 3) =
             Inr (PDict [(''ids'', PList [PList [PStr ''doc_1_chunk_0'', PStr ''doc_1_chunk_1'']]),
                         (''documents'', PList [PList [PStr ''foo'', PStr ''bar'']])])"
    by (simp add: index_foo_bar_def test_backends_def)
  have d: "map_of [(''ids'', PList [PList [PStr ''doc_1_chunk_0'', PStr ''doc_1_chunk_1'']]),
                   (''documents'', PList [PList [PStr ''foo'', PStr ''bar'']])] ''documents'' =
             Some (PList (PList (map PStr [''foo'', ''bar'']) # []))"
    by simp
  have n: "\<forall>c \<in> set [''foo'', ''bar'']. c \<noteq> []" by simp
  have s: "spec_context_block ''Context'' [''foo'', ''bar''] =
             ''Context 1: foo'' @ blank_line @ ''Context 2: bar''"
    by (simp add: spec_context_block_def str_nat.simps)
  have w: "spec_context_block ''Web Result'' [''T: D (U)''] = ''Web Result 1: T: D (U)''"
    by (simp add: spec_context_block_def str_nat.simps)
  have t: "truthy (PBool True)" by simp
  have e: "''Context 1: foo'' @ blank_line @ ''Context 2: bar'' \<noteq> [] \<and> ''Web Result 1: T: D (U)'' \<noteq> []"
    by simp
  note inst = context_assembly [of index_foo_bar "''q''" "Some 3"
      "[(''ids'', PList [PList [PStr ''doc_1_chunk_0'', PStr ''doc_1_chunk_1'']]),
        (''documents'', PList [PList [PStr ''foo'', PStr ''bar'']])]"
      "[''foo'', ''bar'']" "[]"
      "PBool True" "[''T: D (U)'']" "''Context 1: foo'' @ blank_line @ ''Context 2: bar''"
      "''Web Result 1: T: D (U)''"]
  have k: "knowledge_base_try index_foo_bar ''q'' (Some 3) =
             Inr (spec_context_block ''Context'' [''foo'', ''bar''])"
    using inst c d n by blast
  have b: "web_search_context index_foo_bar ''q'' (PBool True) =
             spec_context_block ''Web Result'' [''T: D (U)'']"
    using inst t index_foo_bar_web by blast
  have m: "combine_contexts (''Context 1: foo'' @ blank_line @ ''Context 2: bar'') ''Web Result 1: T: D (U)'' =
     (''Context 1: foo'' @ blank_line @ ''Context 2: bar'') @ blank_line @ ''Web Result 1: T: D (U)''"
    using inst e by blast
  show ?thesis
    unfolding k b m s w by simp
qed

subsection \<open>Soft failure of the knowledge base\<close>

lemma knowledge_base_context_raised:
  assumes "chroma_query be (query request) (max_context_chunks request) = Inl m"
  shows "knowledge_base_context be request = []"
  using assms
  by (simp add: knowledge_base_context_def knowledge_base_try_def search_similar_chunks_def)

lemma knowledge_base_context_empty:
  assumes "chroma_query be (query request) (max_context_chunks request) = Inr (PDict [])"
  shows "knowledge_base_context be request = []"
  using assms
  by (simp add: knowledge_base_context_def knowledge_base_try_def search_similar_chunks_def)

lemma exn_str_chroma: "exn_str (be\<lparr>chroma_query := f\<rparr>) e = exn_str be e"
  by (cases e) simp_all

lemma gemini_try_models_chroma:
  "gemini_try_models (be\<lparr>chroma_query := f\<rparr>) prompt t ms = gemini_try_models be prompt t ms"
  by (induction ms) (simp_all split: sum.splits)

lemma generate_response_chroma:
  "generate_response svc (be\<lparr>chroma_query := f\<rparr>) q ctx pm t = generate_response svc be q ctx pm t"
  by (simp add: generate_response_def generate_response_try_def generate_response_openai_def
      generate_response_gemini_def gemini_try_models_chroma exn_str_chroma Let_def
      cong: if_cong sum.case_cong)

lemma web_search_context_chroma:
  "web_search_context (be\<lparr>chroma_query := f\<rparr>) q uws = web_search_context be q uws"
  by (simp add: web_search_context_def web_search_def serpapi_search_def brave_search_def
      cong: if_cong sum.case_cong)

lemma workflow_try_chroma:
  assumes "knowledge_base_context (be\<lparr>chroma_query := f\<rparr>) request =
           knowledge_base_context (be\<lparr>chroma_query := g\<rparr>) request"
  shows "workflow_try svc (be\<lparr>chroma_query := f\<rparr>) request =
         workflow_try svc (be\<lparr>chroma_query := g\<rparr>) request"
  using assms
  by (simp add: workflow_try_def generate_response_chroma web_search_context_chroma
      cong: if_cong sum.case_cong)

lemma run_workflow_chroma:
  assumes "knowledge_base_context (be\<lparr>chroma_query := f\<rparr>) request =
           knowledge_base_context (be\<lparr>chroma_query := g\<rparr>) request"
  shows "run_workflow svc (be\<lparr>chroma_query := f\<rparr>) request rows =
         run_workflow svc (be\<lparr>chroma_query := g\<rparr>) request rows"
  by (simp add: run_workflow_def failed_execution_def log_execution_def workflow_try_chroma [OF assms]
      exn_str_chroma cong: if_cong sum.case_cong prod.case_cong)

text \<open>
  The provider that the selection policy calls is available and its call returns a
  text \<open>answer\<close>: OpenAI when it is named, or first in line under \<open>auto\<close>; Gemini when it
  is named, when OpenAI is unavailable under \<open>auto\<close>, or after OpenAI has raised
  under \<open>auto\<close>. Then the generation result is that text with \<open>success = true\<close>.
\<close>

lemma provider_answers:
  assumes "((pm = PStr ''openai'' \<or> pm = PStr ''auto'') \<and> openai_available svc \<and>
              fst (generate_response_openai be q ctx ''gpt-4o-mini'' t) = Inr (Some answer)) \<or>
           ((pm = PStr ''gemini'' \<or> pm = PStr ''auto'' \<and> \<not> openai_available svc) \<and>
              gemini_available svc \<and>
              fst (generate_response_gemini be q ctx t) = Inr answer) \<or>
           (pm = PStr ''auto'' \<and> openai_available svc \<and>
              (\<exists>e. fst (generate_response_openai be q ctx ''gpt-4o-mini'' t) = Inl e) \<and>
              gemini_available svc \<and>
              fst (generate_response_gemini be q ctx t) = Inr answer)"
  shows "response (fst (generate_response svc be q ctx pm t)) = Some answer \<and>
         success (fst (generate_response svc be q ctx pm t)) \<and>
         error (fst (generate_response svc be q ctx pm t)) = []"
  using assms
  by (auto simp: generate_response_def generate_response_try_def initial_response_data_def Let_def)

text \<open>
  Claim C5, as the code has it. A run whose vector index query raises is the run over
  an index that returns nothing: same outcome, same log entries, same provider calls.
  When the query raises (the configuration having been extracted, the step before the
  index is queried) and the provider that the selection policy calls is available and
  its call returns a text, the knowledge-base contribution is empty and the run returns
  a response with \<open>success = true\<close>, that text, an empty error, and \<open>context_used\<close>
  equal to the web-search context alone, or null when that is empty (web search
  disabled or without results).
\<close>

theorem knowledge_base_soft_fail:
  "run_workflow svc (be\<lparr>chroma_query := (\<lambda>qry n. Inl m)\<rparr>) request rows =
     run_workflow svc (be\<lparr>chroma_query := (\<lambda>qry n. Inr (PDict []))\<rparr>) request rows \<and>
   (chroma_query be (query request) (max_context_chunks request) = Inl m \<and>
    llm_engine_config request = Inr (use_web_search, selected_model) \<and>
    web = web_search_context be (query request) use_web_search \<and>
    (((selected_model = PStr ''openai'' \<or> selected_model = PStr ''auto'') \<and>
        openai_available svc \<and>
        fst (generate_response_openai be (query request) web ''gpt-4o-mini'' (temperature request)) =
          Inr (Some answer)) \<or>
     ((selected_model = PStr ''gemini'' \<or>
         selected_model = PStr ''auto'' \<and> \<not> openai_available svc) \<and>
        gemini_available svc \<and>
        fst (generate_response_gemini be (query request) web (temperature request)) = Inr answer) \<or>
     (selected_model = PStr ''auto'' \<and> openai_available svc \<and>
        (\<exists>e. fst (generate_response_openai be (query request) web ''gpt-4o-mini''
                     (temperature request)) = Inl e) \<and>
        gemini_available svc \<and>
        fst (generate_response_gemini be (query request) web (temperature request)) = Inr answer)) \<longrightarrow>
      knowledge_base_context be request = [] \<and>
      (\<exists>resp. outcome (run_workflow svc be request rows) = Inr resp \<and>
         run_success resp \<and>
         run_response resp = answer \<and>
         run_error resp = Some [] \<and>
         context_used resp = (if web = [] then None else Some web)))"
proof (intro conjI impI)
  have "knowledge_base_context (be\<lparr>chroma_query := (\<lambda>qry n. Inl m)\<rparr>) request = []"
    by (rule knowledge_base_context_raised [where m = m]) simp
  moreover have "knowledge_base_context (be\<lparr>chroma_query := (\<lambda>qry n. Inr (PDict []))\<rparr>) request = []"
    by (rule knowledge_base_context_empty) simp
  ultimately show "run_workflow svc (be\<lparr>chroma_query := (\<lambda>qry n. Inl m)\<rparr>) request rows =
     run_workflow svc (be\<lparr>chroma_query := (\<lambda>qry n. Inr (PDict []))\<rparr>) request rows"
    by (intro run_workflow_chroma) simp
next
  assume a: "chroma_query be (query request) (max_context_chunks request) = Inl m \<and>
    llm_engine_config request = Inr (use_web_search, selected_model) \<and>
    web = web_search_context be (query request) use_web_search \<and>
    (((selected_model = PStr ''openai'' \<or> selected_model = PStr ''auto'') \<and>
        openai_available svc \<and>
        fst (generate_response_openai be (query request) web ''gpt-4o-mini'' (temperature request)) =
          Inr (Some answer)) \<or>
     ((selected_model = PStr ''gemini'' \<or>
         selected_model = PStr ''auto'' \<and> \<not> openai_available svc) \<and>
        gemini_available svc \<and>
        fst (generate_response_gemini be (query request) web (temperature request)) = Inr answer) \<or>
     (selected_model = PStr ''auto'' \<and> openai_available svc \<and>
        (\<exists>e. fst (generate_response_openai be (query request) web ''gpt-4o-mini''
                     (temperature request)) = Inl e) \<and>
        gemini_available svc \<and>
        fst (generate_response_gemini be (query request) web (temperature request)) = Inr answer))"
  let ?gen = "generate_response svc be (query request) web selected_model (temperature request)"
  from a have a1: "chroma_query be (query request) (max_context_chunks request) = Inl m"
    by (rule conjunct1)
  from a have a2: "llm_engine_config request = Inr (use_web_search, selected_model)"
    by (rule conjunct2 [THEN conjunct1])
  from a have web: "web = web_search_context be (query request) use_web_search"
    by (rule conjunct2 [THEN conjunct2, THEN conjunct1])
  from a have a4: "((selected_model = PStr ''openai'' \<or> selected_model = PStr ''auto'') \<and>
        openai_available svc \<and>
        fst (generate_response_openai be (query request) web ''gpt-4o-mini'' (temperature request)) =
          Inr (Some answer)) \<or>
     ((selected_model = PStr ''gemini'' \<or>
         selected_model = PStr ''auto'' \<and> \<not> openai_available svc) \<and>
        gemini_available svc \<and>
        fst (generate_response_gemini be (query request) web (temperature request)) = Inr answer) \<or>
     (selected_model = PStr ''auto'' \<and> openai_available svc \<and>
        (\<exists>e. fst (generate_response_openai be (query request) web ''gpt-4o-mini''
                     (temperature request)) = Inl e) \<and>
        gemini_available svc \<and>
        fst (generate_response_gemini be (query request) web (temperature request)) = Inr answer)"
    by (rule conjunct2 [THEN conjunct2, THEN conjunct2])
  show kb: "knowledge_base_context be request = []"
    using a1 by (rule knowledge_base_context_raised)
  have g: "response (fst ?gen) = Some answer \<and> success (fst ?gen) \<and> error (fst ?gen) = []"
    using a4 by (rule provider_answers)
  have c: "combine_contexts [] web = web" by (simp add: combine_contexts_def)
  have w: "workflow_try svc be request = (Inr (fst ?gen, web), snd ?gen)"
    by (simp add: workflow_try_def a2 kb c web [symmetric] Let_def)
  have r: "response (fst ?gen) = Some answer" using g by simp
  show "\<exists>resp. outcome (run_workflow svc be request rows) = Inr resp \<and>
         run_success resp \<and>
         run_response resp = answer \<and>
         run_error resp = Some [] \<and>
         context_used resp = (if web = [] then None else Some web)"
    using g by (simp add: run_workflow_returned [OF w r])
qed

lemma web_request_config: "llm_engine_config web_request = Inr (PBool True, PStr ''gemini'')"
  by (simp add: llm_engine_config_def web_request_def pyval_of_optional_def Let_def)

lemma plain_request_config: "llm_engine_config plain_request = Inr (PBool False, PStr ''auto'')"
  by (simp add: llm_engine_config_def plain_request_def pyval_of_optional_def Let_def)

lemma brave_up_web_context:
  "web_search_context brave_up ''q'' (PBool True) = ''Web Result 1: T: D (U)''"
  by (simp add: web_search_context_def web_search_def brave_up_serpapi brave_up_brave str_nat.simps)

lemma brave_up_gemini:
  "fst (generate_response_gemini brave_up ''q'' ctx ()) = Inr ''ok''"
  by (simp add: generate_response_gemini_def gemini_models_def brave_up_def test_backends_def Let_def)

text \<open>
  The theorem at a run over an index that is unavailable, with web search on and one
  web result, answered by Gemini as the node's configuration asks.
\<close>

theorem knowledge_base_soft_fail_witness:
  "chroma_query brave_up ''q'' (Some 3) = Inl ''index unavailable'' \<and>
   (\<exists>resp. outcome (run_workflow both_available brave_up web_request []) = Inr resp \<and>
      run_success resp \<and> run_response resp = ''ok'' \<and> run_error resp = Some [] \<and>
      context_used resp = Some ''Web Result 1: T: D (U)'')"
proof -
  have q: "query web_request = ''q''" "max_context_chunks web_request = Some 3"
    "temperature web_request = ()"
    by (simp_all add: web_request_def)
  have c: "chroma_query brave_up ''q'' (Some 3) = Inl ''index unavailable''"
    by (simp add: brave_up_def test_backends_def)
  have h1: "chroma_query brave_up (query web_request) (max_context_chunks web_request) =
              Inl ''index unavailable''"
    by (simp add: q c)
  have h2: "llm_engine_config web_request = Inr (PBool True, PStr ''gemini'')"
    by (rule web_request_config)
  have h3: "''Web Result 1: T: D (U)'' = web_search_context brave_up (query web_request) (PBool True)"
    by (simp add: q brave_up_web_context)
  have h4: "(PStr ''gemini'' = PStr ''gemini'' \<or>
              PStr ''gemini'' = PStr ''auto'' \<and> \<not> openai_available both_available) \<and>
            gemini_available both_available \<and>
            fst (generate_response_gemini brave_up (query web_request) ''Web Result 1: T: D (U)''
                   (temperature web_request)) = Inr ''ok''"
    by (simp add: q brave_up_gemini both_available_def)
  note inst = knowledge_base_soft_fail [where svc = both_available and be = brave_up
         and m = "''index unavailable''" and request = web_request and rows = "[]"
         and use_web_search = "PBool True" and selected_model = "PStr ''gemini''"
         and web = "''Web Result 1: T: D (U)''" and answer = "''ok''"]
  have "\<exists>resp. outcome (run_workflow both_available brave_up web_request []) = Inr resp \<and>
         run_success resp \<and>
         run_response resp = ''ok'' \<and>
         run_error resp = Some [] \<and>
         context_used resp =
           (if ''Web Result 1: T: D (U)'' = [] then None else Some ''Web Result 1: T: D (U)'')"
    by (rule inst [THEN conjunct2, THEN mp,
          OF conjI [OF h1 conjI [OF h2 conjI [OF h3 disjI2 [OF disjI1 [OF h4]]]]], THEN conjunct2])
  then show ?thesis
    using c by simp
qed

text \<open>
  Claim C5 as stated promises \<open>success = true\<close> whenever an LLM provider is
  available. Here the index raises, both providers are available and the calls of
  both raise: the run returns, with \<open>success = false\<close> and the error of Gemini.
\<close>

theorem knowledge_base_soft_fail_counterexample:
  "chroma_query all_down ''q'' (Some 3) = Inl ''index unavailable'' \<and>
   openai_available both_available \<and> gemini_available both_available \<and>
   outcome (run_workflow both_available all_down plain_request []) =
     Inr \<lparr>run_response = [], run_model_used = [], context_used = None, run_success = False,
          run_error = Some ''Gemini API error: All Gemini models are unavailable''\<rparr>"
proof -
  have t: "fst (workflow_try both_available all_down plain_request) =
     Inr (\<lparr>response = Some [], model_used = [], success = False,
           error = ''Gemini API error: All Gemini models are unavailable''\<rparr>, [])"
    by (simp add: workflow_try_def llm_engine_config_def plain_request_def pyval_of_optional_def
      knowledge_base_context_def knowledge_base_try_def search_similar_chunks_def
      web_search_context_def combine_contexts_def generate_response_def generate_response_try_def
      generate_response_openai_def generate_response_gemini_def gemini_models_def
      both_available_def initial_response_data_def all_down_def test_backends_def Let_def)
  have o: "outcome (run_workflow both_available all_down plain_request []) =
     Inr \<lparr>run_response = [], run_model_used = [], context_used = None, run_success = False,
          run_error = Some ''Gemini API error: All Gemini models are unavailable''\<rparr>"
    using t
    by (cases "workflow_try both_available all_down plain_request")
       (simp add: run_workflow_def build_response_def log_execution_returns Let_def)
  show ?thesis
    using o by (simp add: all_down_def test_backends_def both_available_def)
qed

subsection \<open>Configuration extraction\<close>

lemma find_llm_node_first:
  assumes "\<forall>m \<in> set pre. \<exists>d. m = PDict d \<and> map_of d ''type'' \<noteq> Some (PStr ''llmEngine'')"
    and "map_of node ''type'' = Some (PStr ''llmEngine'')"
  shows "find_llm_node (pre @ PDict node # post) = Inr (Some (PDict node))"
  using assms
proof (induction pre)
  case Nil
  then show ?case by simp
next
  case (Cons m pre)
  from Cons.prems(1) obtain d where d: "m = PDict d" "map_of d ''type'' \<noteq> Some (PStr ''llmEngine'')"
    by auto
  have "find_llm_node (pre @ PDict node # post) = Inr (Some (PDict node))"
    using Cons by simp
  then show ?case using d by (simp split: option.splits)
qed

lemma llm_engine_config_first:
  assumes "map_of (workflow request) ''nodes'' = Some (PList (pre @ PDict node # post))"
    and "map_of (workflow request) ''configs'' = Some (PDict configs)"
    and "\<forall>m \<in> set pre. \<exists>d. m = PDict d \<and> map_of d ''type'' \<noteq> Some (PStr ''llmEngine'')"
    and "map_of node ''type'' = Some (PStr ''llmEngine'')"
    and "map_of node ''id'' = Some (PStr node_id)"
    and "(case map_of configs node_id of Some c \<Rightarrow> c | None \<Rightarrow> PDict []) = PDict llm_config"
  shows "llm_engine_config request =
           Inr (case map_of llm_config ''useWebSearch'' of Some v \<Rightarrow> v | None \<Rightarrow> PBool False,
                case map_of llm_config ''model'' of Some v \<Rightarrow> v
                | None \<Rightarrow> pyval_of_optional (preferred_model request))"
proof -
  have ne: "workflow request \<noteq> []" using assms(1) by auto
  have nd: "node \<noteq> []" using assms(4) by auto
  show ?thesis
    using assms(1,2,5,6) ne nd find_llm_node_first [OF assms(3,4), of post]
    by (simp add: llm_engine_config_def Let_def)
qed

lemma strip_kb_fields_nil: "strip_kb_fields w = [] \<longleftrightarrow> w = []"
  by (simp add: strip_kb_fields_def)

lemma map_of_strip_other:
  "k \<noteq> ''configs'' \<Longrightarrow> map_of (strip_kb_fields w) k = map_of w k"
  by (induction w) (auto simp: strip_kb_fields_def)

lemma map_of_strip_configs:
  "map_of (strip_kb_fields w) ''configs'' = map_option strip_configs (map_of w ''configs'')"
  by (induction w) (auto simp: strip_kb_fields_def)

lemma map_of_without:
  "k \<noteq> ''useKnowledgeBase'' \<Longrightarrow> k \<noteq> ''maxContextChunks'' \<Longrightarrow>
   map_of (filter (\<lambda>kv. fst kv \<noteq> ''useKnowledgeBase'' \<and> fst kv \<noteq> ''maxContextChunks'') d) k = map_of d k"
  by (induction d) auto

lemma py_get_without:
  "k \<noteq> ''useKnowledgeBase'' \<Longrightarrow> k \<noteq> ''maxContextChunks'' \<Longrightarrow>
   py_get (without_kb_fields c) (PStr k) dflt = py_get c (PStr k) dflt"
  by (cases c) (simp_all add: without_kb_fields_def map_of_without)

lemma map_of_map_snd:
  "map_of (map (\<lambda>kc. (fst kc, f (snd kc))) cs) k = map_option f (map_of cs k)"
  by (induction cs) auto

lemma without_kb_fields_nil: "without_kb_fields (PDict []) = PDict []"
  by (simp add: without_kb_fields_def)

lemma py_get_strip_configs:
  "py_get (strip_configs configs) node_id (PDict []) =
     (case py_get configs node_id (PDict []) of Inl e \<Rightarrow> Inl e | Inr c \<Rightarrow> Inr (without_kb_fields c))"
proof (cases configs)
  case (PDict cs)
  then show ?thesis
    by (cases node_id)
       (simp_all add: strip_configs_def map_of_map_snd without_kb_fields_nil split: option.splits)
qed (simp_all add: strip_configs_def)

lemma config_fields_without:
  "(case py_get (without_kb_fields c) (PStr ''useWebSearch'') (PBool False) of
      Inl e \<Rightarrow> Inl e
    | Inr uws \<Rightarrow>
        (case py_get (without_kb_fields c) (PStr ''model'') sm of
           Inl e \<Rightarrow> Inl e | Inr model \<Rightarrow> Inr (uws, model))) =
   (case py_get c (PStr ''useWebSearch'') (PBool False) of
      Inl e \<Rightarrow> Inl e
    | Inr uws \<Rightarrow>
        (case py_get c (PStr ''model'') sm of
           Inl e \<Rightarrow> Inl e | Inr model \<Rightarrow> Inr (uws, model)))"
  by (simp add: py_get_without cong: sum.case_cong)

lemma config_lookup_strip:
  "(case py_get (strip_configs configs) node_id (PDict []) of
      Inl e \<Rightarrow> Inl e
    | Inr llm_config \<Rightarrow>
        (case py_get llm_config (PStr ''useWebSearch'') (PBool False) of
           Inl e \<Rightarrow> Inl e
         | Inr uws \<Rightarrow>
             (case py_get llm_config (PStr ''model'') sm of
                Inl e \<Rightarrow> Inl e | Inr model \<Rightarrow> Inr (uws, model)))) =
   (case py_get configs node_id (PDict []) of
      Inl e \<Rightarrow> Inl e
    | Inr llm_config \<Rightarrow>
        (case py_get llm_config (PStr ''useWebSearch'') (PBool False) of
           Inl e \<Rightarrow> Inl e
         | Inr uws \<Rightarrow>
             (case py_get llm_config (PStr ''model'') sm of
                Inl e \<Rightarrow> Inl e | Inr model \<Rightarrow> Inr (uws, model))))"
  unfolding py_get_strip_configs
  by (cases "py_get configs node_id (PDict [])") (simp_all add: config_fields_without)

lemma llm_engine_config_strip:
  "llm_engine_config (request\<lparr>workflow := strip_kb_fields (workflow request)\<rparr>) =
   llm_engine_config request"
proof (cases "map_of (workflow request) ''configs''")
  case None
  then show ?thesis
    by (simp add: llm_engine_config_def map_of_strip_configs)
next
  case (Some configs)
  have c: "py_getitem_str (PDict (strip_kb_fields (workflow request))) ''configs'' = Inr (strip_configs configs)"
    "py_getitem_str (PDict (workflow request)) ''configs'' = Inr configs"
    using Some by (simp_all add: map_of_strip_configs)
  show ?thesis
    unfolding llm_engine_config_def
    by (simp add: c strip_kb_fields_nil map_of_strip_other map_of_strip_configs Some
        config_lookup_strip Let_def
        cong: if_cong sum.case_cong option.case_cong)
qed

lemma knowledge_base_context_workflow:
  "knowledge_base_context be (request\<lparr>workflow := w\<rparr>) = knowledge_base_context be request"
  by (simp add: knowledge_base_context_def)

lemma failed_execution_workflow:
  "failed_execution be (request\<lparr>workflow := w\<rparr>) e emitted rows calls =
   failed_execution be request e emitted rows calls"
  by (simp add: failed_execution_def)

lemma workflow_try_strip:
  "workflow_try svc be (request\<lparr>workflow := strip_kb_fields (workflow request)\<rparr>) =
   workflow_try svc be request"
  by (simp add: workflow_try_def llm_engine_config_strip knowledge_base_context_workflow
      cong: sum.case_cong prod.case_cong)

lemma run_workflow_strip:
  "run_workflow svc be (request\<lparr>workflow := strip_kb_fields (workflow request)\<rparr>) rows =
   run_workflow svc be request rows"
  by (simp add: run_workflow_def workflow_try_strip failed_execution_workflow
      cong: sum.case_cong prod.case_cong)

text \<open>
  Claim C4. For a workflow definition whose node list has a first node of type
  \<^verbatim>\<open>llmEngine\<close> (the nodes before it being nodes of other types), configuration
  extraction yields the \<^verbatim>\<open>useWebSearch\<close> value of that node's configuration, false
  when absent, and its \<^verbatim>\<open>model\<close> value, the request's \<open>preferred_model\<close> when
  absent. The run performs web search according to the first and generates with the
  second. The knowledge base is queried when the request's \<open>use_knowledge_base\<close> is
  true, for the request's \<open>max_context_chunks\<close> chunks; and the run is the same over
  the workflow definition with the \<^verbatim>\<open>useKnowledgeBase\<close> and
  \<^verbatim>\<open>maxContextChunks\<close> entries removed from every node configuration: they are never
  consulted.
\<close>

theorem config_extraction:
  "(map_of (workflow request) ''nodes'' = Some (PList (pre @ PDict node # post)) \<and>
    map_of (workflow request) ''configs'' = Some (PDict configs) \<and>
    (\<forall>m \<in> set pre. \<exists>d. m = PDict d \<and> map_of d ''type'' \<noteq> Some (PStr ''llmEngine'')) \<and>
    map_of node ''type'' = Some (PStr ''llmEngine'') \<and>
    map_of node ''id'' = Some (PStr node_id) \<and>
    (case map_of configs node_id of Some c \<Rightarrow> c | None \<Rightarrow> PDict []) = PDict llm_config \<longrightarrow>
      llm_engine_config request =
        Inr (case map_of llm_config ''useWebSearch'' of Some v \<Rightarrow> v | None \<Rightarrow> PBool False,
             case map_of llm_config ''model'' of Some v \<Rightarrow> v
             | None \<Rightarrow> pyval_of_optional (preferred_model request))) \<and>
   (llm_engine_config request = Inr (use_web_search, selected_model) \<longrightarrow>
      workflow_try svc be request =
        (Inr (fst (generate_response svc be (query request)
                     (combine_contexts (knowledge_base_context be request)
                        (web_search_context be (query request) use_web_search))
                     selected_model (temperature request)),
              combine_contexts (knowledge_base_context be request)
                (web_search_context be (query request) use_web_search)),
         snd (generate_response svc be (query request)
                (combine_contexts (knowledge_base_context be request)
                   (web_search_context be (query request) use_web_search))
                selected_model (temperature request))) \<and>
      (\<not> truthy use_web_search \<longrightarrow> web_search_context be (query request) use_web_search = [])) \<and>
   knowledge_base_context be request =
     (if use_knowledge_base request = Some True
      then (case knowledge_base_try be (query request) (max_context_chunks request) of
              Inr context \<Rightarrow> context | Inl e \<Rightarrow> [])
      else []) \<and>
   run_workflow svc be (request\<lparr>workflow := strip_kb_fields (workflow request)\<rparr>) rows =
     run_workflow svc be request rows"
proof (intro conjI impI)
  assume "map_of (workflow request) ''nodes'' = Some (PList (pre @ PDict node # post)) \<and>
    map_of (workflow request) ''configs'' = Some (PDict configs) \<and>
    (\<forall>m \<in> set pre. \<exists>d. m = PDict d \<and> map_of d ''type'' \<noteq> Some (PStr ''llmEngine'')) \<and>
    map_of node ''type'' = Some (PStr ''llmEngine'') \<and>
    map_of node ''id'' = Some (PStr node_id) \<and>
    (case map_of configs node_id of Some c \<Rightarrow> c | None \<Rightarrow> PDict []) = PDict llm_config"
  then show "llm_engine_config request =
        Inr (case map_of llm_config ''useWebSearch'' of Some v \<Rightarrow> v | None \<Rightarrow> PBool False,
             case map_of llm_config ''model'' of Some v \<Rightarrow> v
             | None \<Rightarrow> pyval_of_optional (preferred_model request))"
    using llm_engine_config_first [where request = request and pre = pre and node = node
        and post = post and configs = configs and node_id = node_id and llm_config = llm_config]
    by simp
next
  assume c: "llm_engine_config request = Inr (use_web_search, selected_model)"
  then show "workflow_try svc be request =
        (Inr (fst (generate_response svc be (query request)
                     (combine_contexts (knowledge_base_context be request)
                        (web_search_context be (query request) use_web_search))
                     selected_model (temperature request)),
              combine_contexts (knowledge_base_context be request)
                (web_search_context be (query request) use_web_search)),
         snd (generate_response svc be (query request)
                (combine_contexts (knowledge_base_context be request)
                   (web_search_context be (query request) use_web_search))
                selected_model (temperature request)))"
    by (simp add: workflow_try_def Let_def)
  assume "\<not> truthy use_web_search"
  then show "web_search_context be (query request) use_web_search = []"
    by (simp add: web_search_context_def)
next
  show "knowledge_base_context be request =
     (if use_knowledge_base request = Some True
      then (case knowledge_base_try be (query request) (max_context_chunks request) of
              Inr context \<Rightarrow> context | Inl e \<Rightarrow> [])
      else [])"
    by (simp add: knowledge_base_context_def split: sum.splits)
  show "run_workflow svc be (request\<lparr>workflow := strip_kb_fields (workflow request)\<rparr>) rows =
     run_workflow svc be request rows"
    by (rule run_workflow_strip)
qed

lemma index_foo_bar_run:
  "outcome (run_workflow both_available index_foo_bar web_request []) =
     Inr \<lparr>run_response = ''ok'', run_model_used = ''gemini'',
          context_used = Some (''Context 1: foo'' @ blank_line @ ''Context 2: bar'' @ blank_line
                               @ ''Web Result 1: T: D (U)''),
          run_success = True, run_error = Some []\<rparr>"
proof -
  have k: "knowledge_base_context index_foo_bar web_request =
             ''Context 1: foo'' @ blank_line @ ''Context 2: bar''"
    by (simp add: knowledge_base_context_def knowledge_base_try_def search_similar_chunks_def
        index_foo_bar_def test_backends_def web_request_def str_nat.simps Let_def)
  have w: "web_search_context index_foo_bar ''q'' (PBool True) = ''Web Result 1: T: D (U)''"
    by (simp add: web_search_context_def index_foo_bar_web str_nat.simps)
  have g: "fst (generate_response both_available index_foo_bar ''q'' ctx (PStr ''gemini'') ()) =
     \<lparr>response = Some ''ok'', model_used = ''gemini'', success = True, error = []\<rparr>" for ctx
    by (simp add: generate_response_def generate_response_try_def generate_response_gemini_def
      gemini_models_def both_available_def initial_response_data_def index_foo_bar_def
      test_backends_def Let_def)
  have q: "query web_request = ''q''" "temperature web_request = ()" by (simp_all add: web_request_def)
  have t: "fst (workflow_try both_available index_foo_bar web_request) =
     Inr (\<lparr>response = Some ''ok'', model_used = ''gemini'', success = True, error = []\<rparr>,
          ''Context 1: foo'' @ blank_line @ ''Context 2: bar'' @ blank_line @ ''Web Result 1: T: D (U)'')"
    by (simp add: workflow_try_def web_request_config k q w g combine_contexts_def Let_def)
  show ?thesis
    using t
    by (cases "workflow_try both_available index_foo_bar web_request")
       (simp add: run_workflow_def build_response_def log_execution_returns Let_def blank_line_def)
qed

text \<open>
  The theorem at a workflow with two LLM engine nodes, the first configured with
  Gemini, web search on, \<^verbatim>\<open>useKnowledgeBase\<close> false and \<^verbatim>\<open>maxContextChunks\<close> 7,
  under a request with \<open>use_knowledge_base\<close> true: the first node's model and web
  search are used, and the knowledge base is queried all the same.
\<close>

theorem config_extraction_witness:
  "llm_engine_config web_request = Inr (PBool True, PStr ''gemini'') \<and>
   web_search_context index_foo_bar (query plain_request) (PBool False) = [] \<and>
   outcome (run_workflow both_available index_foo_bar
              (web_request\<lparr>workflow := strip_kb_fields (workflow web_request)\<rparr>) []) =
     Inr \<lparr>run_response = ''ok'', run_model_used = ''gemini'',
          context_used = Some (''Context 1: foo'' @ blank_line @ ''Context 2: bar'' @ blank_line
                               @ ''Web Result 1: T: D (U)''),
          run_success = True, run_error = Some []\<rparr>"
proof -
  have h: "map_of (workflow web_request) ''nodes'' =
             Some (PList ([PDict [(''id'', PStr ''1''), (''type'', PStr ''userQuery'')]]
                          @ PDict [(''id'', PStr ''2''), (''type'', PStr ''llmEngine'')]
                          # [PDict [(''id'', PStr ''3''), (''type'', PStr ''llmEngine'')]])) \<and>
    map_of (workflow web_request) ''configs'' =
      Some (PDict [(''2'', PDict [(''model'', PStr ''gemini''), (''useWebSearch'', PBool True),
                                 (''useKnowledgeBase'', PBool False), (''maxContextChunks'', PNum 7)]),
                   (''3'', PDict [(''model'', PStr ''openai'')])]) \<and>
    (\<forall>m \<in> set [PDict [(''id'', PStr ''1''), (''type'', PStr ''userQuery'')]].
        \<exists>d. m = PDict d \<and> map_of d ''type'' \<noteq> Some (PStr ''llmEngine'')) \<and>
    map_of [(''id'', PStr ''2''), (''type'', PStr ''llmEngine'')] ''type'' = Some (PStr ''llmEngine'') \<and>
    map_of [(''id'', PStr ''2''), (''type'', PStr ''llmEngine'')] ''id'' = Some (PStr ''2'') \<and>
    (case map_of [(''2'', PDict [(''model'', PStr ''gemini''), (''useWebSearch'', PBool True),
                                 (''useKnowledgeBase'', PBool False), (''maxContextChunks'', PNum 7)]),
                   (''3'', PDict [(''model'', PStr ''openai'')])] ''2''
     of Some c \<Rightarrow> c | None \<Rightarrow> PDict []) =
      PDict [(''model'', PStr ''gemini''), (''useWebSearch'', PBool True),
             (''useKnowledgeBase'', PBool False), (''maxContextChunks'', PNum 7)]"
    by (simp add: web_request_def)
  note inst = config_extraction [where request = web_request and svc = both_available
      and be = index_foo_bar and rows = "[]"
      and pre = "[PDict [(''id'', PStr ''1''), (''type'', PStr ''userQuery'')]]"
      and node = "[(''id'', PStr ''2''), (''type'', PStr ''llmEngine'')]"
      and post = "[PDict [(''id'', PStr ''3''), (''type'', PStr ''llmEngine'')]]"
      and node_id = "''2''"
      and configs = "[(''2'', PDict [(''model'', PStr ''gemini''), (''useWebSearch'', PBool True),
                                 (''useKnowledgeBase'', PBool False), (''maxContextChunks'', PNum 7)]),
                      (''3'', PDict [(''model'', PStr ''openai'')])]"
      and llm_config = "[(''model'', PStr ''gemini''), (''useWebSearch'', PBool True),
             (''useKnowledgeBase'', PBool False), (''maxContextChunks'', PNum 7)]"]
  have a: "llm_engine_config web_request = Inr (PBool True, PStr ''gemini'')"
    using inst h by simp
  have b: "run_workflow both_available index_foo_bar
              (web_request\<lparr>workflow := strip_kb_fields (workflow web_request)\<rparr>) [] =
           run_workflow both_available index_foo_bar web_request []"
    using inst by blast
  have f: "\<not> truthy (PBool False)" by simp
  have c: "web_search_context index_foo_bar (query plain_request) (PBool False) = []"
    using config_extraction [where request = plain_request and svc = both_available
        and be = index_foo_bar and use_web_search = "PBool False"
        and selected_model = "PStr ''auto''"] plain_request_config f
    by blast
  show ?thesis
    unfolding b using a c index_foo_bar_run by simp
qed

end
